theory Spec2Isabelle
  imports Main "HOL-Library.Word" "HOL-Library.List_Lexorder" "HOL-Library.Char_ord"
    "HOL-Library.Multiset"
begin

unbundle bit_operations_syntax

section \<open>Bytes, strings and decimal numbers\<close>

type_synonym byte = "8 word"

text \<open>A Go string is a sequence of bytes, and so is an Isabelle \<^typ>\<open>string\<close>.
  \<open>bytes_of s\<close> is the conversion \<open>[]byte(s)\<close>.\<close>

definition bytes_of :: "string \<Rightarrow> byte list" where
  "bytes_of s = map (\<lambda>c. word_of_nat (of_char c)) s"

text \<open>\<open>strconv.Itoa\<close>: the decimal digits of an integer, with a leading minus sign for a
  negative one.\<close>

definition digit :: "nat \<Rightarrow> char" where
  "digit d = ''0123456789'' ! d"

function digits :: "nat \<Rightarrow> string" where
  "digits n = (if n < 10 then [digit n] else digits (n div 10) @ [digit (n mod 10)])"
  by pat_completeness auto
termination
  by (relation "measure id") auto

declare digits.simps [simp del]

definition Itoa :: "int \<Rightarrow> string" where
  "Itoa i = (if i < 0 then CHR ''-'' # digits (nat (- i)) else digits (nat i))"

section \<open>SHA-256, as \<open>crypto/sha256\<close> computes it\<close>

type_synonym uint32 = "32 word"

text \<open>\<open>bits.RotateLeft32(x, -k)\<close>, a rotation to the right by \<open>k\<close> bits.\<close>

definition RotateRight32 :: "uint32 \<Rightarrow> nat \<Rightarrow> uint32" where
  "RotateRight32 x k = drop_bit k x OR push_bit (32 - k) x"

text \<open>The table \<open>_K\<close> of round constants and the initial state \<open>init0\<close>, \<dots>,
  \<open>init7\<close>, written in decimal (\<open>_K[0]\<close> is \<open>0x428a2f98\<close>, \<open>init0\<close> is \<open>0x6A09E667\<close>).\<close>

definition K256 :: "uint32 list" where
  "K256 = [
    1116352408, 1899447441, 3049323471, 3921009573, 961987163, 1508970993,
    2453635748, 2870763221, 3624381080, 310598401, 607225278, 1426881987,
    1925078388, 2162078206, 2614888103, 3248222580, 3835390401, 4022224774,
    264347078, 604807628, 770255983, 1249150122, 1555081692, 1996064986,
    2554220882, 2821834349, 2952996808, 3210313671, 3336571891, 3584528711,
    113926993, 338241895, 666307205, 773529912, 1294757372, 1396182291,
    1695183700, 1986661051, 2177026350, 2456956037, 2730485921, 2820302411,
    3259730800, 3345764771, 3516065817, 3600352804, 4094571909, 275423344,
    430227734, 506948616, 659060556, 883997877, 958139571, 1322822218,
    1537002063, 1747873779, 1955562222, 2024104815, 2227730452, 2361852424,
    2428436474, 2756734187, 3204031479, 3329325298]"

definition init256 :: "uint32 list" where
  "init256 = [1779033703, 3144134277, 1013904242, 2773480762,
              1359893119, 2600822924, 528734635, 1541459225]"

text \<open>The sixteen big-endian words of a 64-byte chunk.\<close>

fun be32 :: "byte list \<Rightarrow> uint32 list" where
  "be32 (b0 # b1 # b2 # b3 # bs) =
     (push_bit 24 (ucast b0) OR push_bit 16 (ucast b1) OR push_bit 8 (ucast b2) OR ucast b3) # be32 bs"
| "be32 _ = []"

text \<open>The message schedule is kept as a window of the last sixteen words:
  \<open>w\<close> holds \<open>w[i-16], \<dots>, w[i-1]\<close> and \<open>sched1 w\<close> is \<open>w[i]\<close>.\<close>

definition sched1 :: "uint32 list \<Rightarrow> uint32" where
  "sched1 w = (let v1 = w ! 14; v2 = w ! 1;
       t1 = RotateRight32 v1 17 XOR RotateRight32 v1 19 XOR drop_bit 10 v1;
       t2 = RotateRight32 v2 7 XOR RotateRight32 v2 18 XOR drop_bit 3 v2
     in t1 + w ! 9 + t2 + w ! 0)"

fun round256 :: "uint32 list \<Rightarrow> uint32 \<Rightarrow> uint32 \<Rightarrow> uint32 list" where
  "round256 [a, b, c, d, e, f, g, h] k w =
     (let t1 = h + (RotateRight32 e 6 XOR RotateRight32 e 11 XOR RotateRight32 e 25)
                 + ((e AND f) XOR (NOT e AND g)) + k + w;
          t2 = (RotateRight32 a 2 XOR RotateRight32 a 13 XOR RotateRight32 a 22)
                 + ((a AND b) XOR (a AND c) XOR (b AND c))
      in [t1 + t2, a, b, c, d + t1, e, f, g])"
| "round256 s _ _ = s"

fun rounds256 :: "uint32 list \<Rightarrow> uint32 list \<Rightarrow> uint32 list \<Rightarrow> uint32 list" where
  "rounds256 [] w s = s"
| "rounds256 (k # ks) w s = rounds256 ks (tl w @ [sched1 w]) (round256 s k (hd w))"

definition block256 :: "uint32 list \<Rightarrow> byte list \<Rightarrow> uint32 list" where
  "block256 hs p = map2 (+) hs (rounds256 K256 (be32 p) hs)"

text \<open>The loop \<open>for len(p) >= chunk\<close> of the block function.\<close>

function blocks256 :: "uint32 list \<Rightarrow> byte list \<Rightarrow> uint32 list" where
  "blocks256 hs p = (if length p < 64 then hs else blocks256 (block256 hs (take 64 p)) (drop 64 p))"
  by pat_completeness auto
termination
  by (relation "measure (\<lambda>(hs, p). length p)") auto

declare blocks256.simps [simp del]

definition be64 :: "64 word \<Rightarrow> byte list" where
  "be64 x = map (\<lambda>k. ucast (drop_bit k x)) [56, 48, 40, 32, 24, 16, 8, 0]"

text \<open>Padding: the byte \<open>0x80\<close>, zeros up to 56 modulo 64, and the length in bits as a
  big-endian 64-bit number.\<close>

definition pad256 :: "byte list \<Rightarrow> byte list" where
  "pad256 m = m @ [0x80] @ replicate ((119 - length m mod 64) mod 64) 0
                @ be64 (push_bit 3 (word_of_nat (length m)))"

definition bytes32 :: "uint32 \<Rightarrow> byte list" where
  "bytes32 x = [ucast (drop_bit 24 x), ucast (drop_bit 16 x), ucast (drop_bit 8 x), ucast x]"

definition sha256 :: "byte list \<Rightarrow> byte list" where
  "sha256 m = concat (map bytes32 (blocks256 init256 (pad256 m)))"

section \<open>The filesystem collaborator\<close>

text \<open>\<open>fs.FileMode\<close> is a \<open>uint32\<close>; the type bits are those of Go's \<open>io/fs\<close>.\<close>

type_synonym FileMode = "32 word"

definition ModeDir :: FileMode where "ModeDir = push_bit 31 1"
definition ModeSymlink :: FileMode where "ModeSymlink = push_bit 27 1"
definition ModeDevice :: FileMode where "ModeDevice = push_bit 26 1"
definition ModeNamedPipe :: FileMode where "ModeNamedPipe = push_bit 25 1"
definition ModeSocket :: FileMode where "ModeSocket = push_bit 24 1"
definition ModeCharDevice :: FileMode where "ModeCharDevice = push_bit 21 1"
definition ModeIrregular :: FileMode where "ModeIrregular = push_bit 19 1"

definition ModeType :: FileMode where
  "ModeType = ModeDir OR ModeSymlink OR ModeNamedPipe OR ModeSocket OR ModeDevice
                OR ModeCharDevice OR ModeIrregular"

record FileInfo =
  Mode :: FileMode
  Size :: int

text \<open>An \<open>io.Reader\<close>, seen from \<open>io.Copy\<close>: the bytes it delivers, and the error that
  ends the stream when it does not end with \<open>io.EOF\<close>.\<close>

record Reader =
  content :: "byte list"
  failure :: "string option"

text \<open>The filesystem behind an \<open>fsx.FS\<close>: what \<open>fsx.Lstat\<close>, \<open>fsys.Open\<close> and
  \<open>fsx.Readlink\<close> answer, and \<open>Listing\<close>, the names of the entries of a directory in the
  order in which the filesystem enumerates them. \<open>Inl\<close> carries the error of the call.\<close>

record FS =
  Lstat :: "string \<Rightarrow> string + FileInfo"
  Open :: "string \<Rightarrow> string + Reader"
  Readlink :: "string \<Rightarrow> string + string"
  Listing :: "string \<Rightarrow> string + string list"

text \<open>Modelled from the spec: \<open>fsx.ReadDir\<close>, a function of the library \<open>go-fsx\<close> that the
  source calls and does not contain. The specification has the entries sorted by name
  before the byte sequence of the parent is composed, whatever the order in which the
  filesystem enumerates them (Go's \<open>ReadDir\<close> functions return the entries sorted by
  filename). Names are compared as byte strings. Of an entry only \<open>Name()\<close> is used.\<close>

definition ReadDir :: "FS \<Rightarrow> string \<Rightarrow> string + string list" where
  "ReadDir fsys pth =
     (case Listing fsys pth of Inl err \<Rightarrow> Inl err | Inr names \<Rightarrow> Inr (sort names))"

section \<open>Errors and results\<close>

definition ErrUnsupportedFileType :: string where
  "ErrUnsupportedFileType = ''gittreehash-error-unsupported-file-type''"

definition ErrIO :: string where
  "ErrIO = ''gittreehash-error-io''"

definition ErrConcurrentIO :: string where
  "ErrConcurrentIO = ''gittreehash-error-concurrent-io''"

text \<open>One constructor for each place where an error is made: the wrapped error of a
  failed call; the size mismatch with the claimed size, the observed size and the path;
  the failed readlink with the path and the cause; the unsupported type with its name and
  the path.\<close>

datatype error =
    IOFailure string
  | SizeMismatch int int string
  | ReadlinkFailure string string
  | UnsupportedFileType string string

fun code :: "error \<Rightarrow> string" where
  "code (IOFailure err) = ErrIO"
| "code (SizeMismatch claimedSize contentSize pth) = ErrConcurrentIO"
| "code (ReadlinkFailure pth err) = ErrConcurrentIO"
| "code (UnsupportedFileType typ pth) = ErrUnsupportedFileType"

text \<open>A call of \<open>hashSomething\<close> returns its three results or panics.\<close>

datatype outcome =
    Return "byte list" FileMode "error option"
  | Panic string

text \<open>\<open>[32]byte{}\<close>\<close>

definition zeroHash :: "byte list" where
  "zeroHash = replicate 32 0"

section \<open>hashStream\<close>

text \<open>A \<open>bytes.Buffer\<close> or a \<open>strings.Reader\<close>: it never fails.\<close>

definition BufferReader :: "byte list \<Rightarrow> Reader" where
  "BufferReader bs = \<lparr>content = bs, failure = None\<rparr>"

text \<open>\<open>io.MultiReader\<close>: the readers one after the other, up to the first that fails.\<close>

fun MultiReader :: "Reader list \<Rightarrow> Reader" where
  "MultiReader [] = \<lparr>content = [], failure = None\<rparr>"
| "MultiReader (r # rs) =
     (case failure r of
        Some err \<Rightarrow> r
      | None \<Rightarrow> \<lparr>content = content r @ content (MultiReader rs),
                 failure = failure (MultiReader rs)\<rparr>)"

text \<open>The named results \<open>hash\<close>, \<open>contentSize\<close> and \<open>err\<close>: on a failed copy \<open>hash\<close> is
  still the zero array and \<open>contentSize\<close> is what was copied before the failure.\<close>

definition hashStream :: "Reader \<Rightarrow> byte list \<times> int \<times> error option" where
  "hashStream data =
     (let contentSize = int (length (content data)) in
      case failure data of
        Some err \<Rightarrow> (zeroHash, contentSize, Some (IOFailure err))
      | None \<Rightarrow> (sha256 (content data), contentSize, None))"

section \<open>hashSomething\<close>

text \<open>The three lines that build a preamble: the tag, the decimal length, a zero byte.\<close>

definition preamble :: "string \<Rightarrow> int \<Rightarrow> byte list" where
  "preamble tag n = bytes_of tag @ bytes_of (Itoa n) @ [0]"

text \<open>The inner \<open>switch dirEntMode & fs.ModeType\<close> of the directory loop: what is written
  before the name of the entry; \<open>None\<close> is the \<open>default\<close> branch, which panics.
  The execute bits \<open>0o111\<close> are \<open>0x49\<close>.\<close>

definition entryMode :: "FileMode \<Rightarrow> string option" where
  "entryMode dirEntMode =
     (let ty = dirEntMode AND ModeType in
      if ty = 0 then (if dirEntMode AND 0x49 \<noteq> 0 then Some ''100755 '' else Some ''100644 '')
      else if ty = ModeSymlink then Some ''120000 ''
      else if ty = ModeDir then Some ''40000 ''
      else None)"

text \<open>The loop \<open>for _, dirEnt := range dirEnts\<close>. \<open>self\<close> is the recursive call of
  \<open>hashSomething\<close>, \<open>join\<close> is \<open>filepath.Join\<close>, and \<open>buf\<close> is the buffer so far. The
  result is \<open>Inl\<close> when the loop leaves the function (a \<open>return\<close> or a panic) and \<open>Inr\<close>
  with the buffer when it runs to its end; \<open>None\<close> when a recursive call does not return.\<close>

fun dirLoop :: "(string \<Rightarrow> outcome option) \<Rightarrow> (string \<Rightarrow> string \<Rightarrow> string) \<Rightarrow> string
    \<Rightarrow> FileMode \<Rightarrow> string list \<Rightarrow> byte list \<Rightarrow> (outcome + byte list) option" where
  "dirLoop self join pth mode [] buf = Some (Inr buf)"
| "dirLoop self join pth mode (name # dirEnts) buf =
     (case self (join pth name) of
        None \<Rightarrow> None
      | Some (Panic msg) \<Rightarrow> Some (Inl (Panic msg))
      | Some (Return hash dirEntMode (Some err)) \<Rightarrow> Some (Inl (Return zeroHash mode (Some err)))
      | Some (Return hash dirEntMode None) \<Rightarrow>
          (case entryMode dirEntMode of
             None \<Rightarrow> Some (Inl (Panic ''unreachable?  other types should've error earlier''))
           | Some m \<Rightarrow>
               dirLoop self join pth mode dirEnts (buf @ bytes_of m @ bytes_of name @ [0] @ hash)))"

text \<open>\<open>hashSomething\<close> recurses as deep as the directories of the filesystem are nested,
  and nothing bounds that for a filesystem given as functions. The first argument is the
  depth allowed to the recursion: \<open>None\<close> is the call that does not return within it.\<close>

primrec hashSomething :: "nat \<Rightarrow> (string \<Rightarrow> string \<Rightarrow> string) \<Rightarrow> FS \<Rightarrow> string
    \<Rightarrow> outcome option" where
  "hashSomething 0 join fsys pth = None"
| "hashSomething (Suc depth) join fsys pth =
     (case Lstat fsys pth of
        Inl err \<Rightarrow> Some (Return zeroHash 0 (Some (IOFailure err)))
      | Inr fi \<Rightarrow>
         (let mode = Mode fi; ty = mode AND ModeType in
          if ty = 0 then
            (let claimedSize = Size fi;
                 pre = preamble ''blob '' claimedSize;
                 preambleLen = int (length pre)
             in case Open fsys pth of
                  Inl err \<Rightarrow> Some (Return zeroHash mode (Some (IOFailure err)))
                | Inr f \<Rightarrow>
                   (case hashStream (MultiReader [BufferReader pre, f]) of
                      (hash, coveredSize, Some err) \<Rightarrow> Some (Return zeroHash mode (Some err))
                    | (hash, coveredSize, None) \<Rightarrow>
                       (let contentSize = coveredSize - preambleLen in
                        if contentSize \<noteq> claimedSize
                        then Some (Return hash mode (Some (SizeMismatch claimedSize contentSize pth)))
                        else Some (Return hash mode None))))
          else if ty = ModeSymlink then
            (let claimedSize = Size fi;
                 pre = preamble ''blob '' claimedSize;
                 preambleLen = int (length pre)
             in case Readlink fsys pth of
                  Inl err \<Rightarrow> Some (Return zeroHash mode (Some (ReadlinkFailure pth err)))
                | Inr target \<Rightarrow>
                   (case hashStream (MultiReader [BufferReader pre, BufferReader (bytes_of target)]) of
                      (hash, coveredSize, Some err) \<Rightarrow>
                        Some (Panic ''unreachable; all data already in memory'')
                    | (hash, coveredSize, None) \<Rightarrow>
                       (let contentSize = coveredSize - preambleLen in
                        if contentSize \<noteq> claimedSize
                        then Some (Return hash mode (Some (SizeMismatch claimedSize contentSize pth)))
                        else Some (Return hash mode None))))
          else if ty = ModeDir then
            (case ReadDir fsys pth of
               Inl err \<Rightarrow> Some (Return zeroHash mode (Some (IOFailure err)))
             | Inr dirEnts \<Rightarrow>
                (case dirLoop (hashSomething depth join fsys) join pth mode dirEnts [] of
                   None \<Rightarrow> None
                 | Some (Inl out) \<Rightarrow> Some out
                 | Some (Inr buf) \<Rightarrow>
                    (case hashStream (MultiReader
                            [BufferReader (preamble ''tree '' (int (length buf))), BufferReader buf]) of
                       (hash, coveredSize, Some err) \<Rightarrow>
                         Some (Panic ''unreachable; all data already in memory'')
                     | (hash, coveredSize, None) \<Rightarrow> Some (Return hash mode None))))
          else if ty = ModeNamedPipe then
            Some (Return zeroHash mode (Some (UnsupportedFileType ''pipe'' pth)))
          else if ty = ModeSocket then
            Some (Return zeroHash mode (Some (UnsupportedFileType ''socket'' pth)))
          else if ty = ModeDevice \<or> ty = ModeCharDevice then
            Some (Return zeroHash mode (Some (UnsupportedFileType ''device'' pth)))
          else if ty = ModeIrregular then
            Some (Return zeroHash mode (Some (UnsupportedFileType ''irregular'' pth)))
          else Some (Panic ''unreachable?  'irregular' should be the catch-all here'')))"

section \<open>The tree object in the words of the specification\<close>

text \<open>A regular file, a symbolic link and a directory, by the type bits of the mode;
  ``any execute bit'' is one of the bits \<open>0o001\<close>, \<open>0o010\<close> and \<open>0o100\<close>.\<close>

definition spec_executable :: "FileMode \<Rightarrow> bool" where
  "spec_executable m = (bit m 0 \<or> bit m 3 \<or> bit m 6)"

definition spec_modeString :: "FileMode \<Rightarrow> string" where
  "spec_modeString m =
     (if m AND ModeType = 0 then (if spec_executable m then ''100755'' else ''100644'')
      else if m AND ModeType = ModeSymlink then ''120000''
      else ''40000'')"

text \<open>Mode-string, one space, the name, one zero byte, the digest, and nothing after it.\<close>

definition spec_entry :: "string \<Rightarrow> byte list \<times> FileMode \<Rightarrow> byte list" where
  "spec_entry name child =
     bytes_of (spec_modeString (snd child)) @ [0x20] @ bytes_of name @ [0x00] @ fst child"

definition spec_body :: "string list \<Rightarrow> (byte list \<times> FileMode) list \<Rightarrow> byte list" where
  "spec_body names children = concat (map2 spec_entry names children)"

definition spec_tree :: "byte list \<Rightarrow> byte list" where
  "spec_tree body = bytes_of ''tree '' @ bytes_of (Itoa (int (length body))) @ [0x00] @ body"

section \<open>Walking down to a path\<close>

definition succeeded :: "outcome option \<Rightarrow> bool" where
  "succeeded r = (case r of Some (Return hash mode None) \<Rightarrow> True | _ \<Rightarrow> False)"

text \<open>\<open>descends depth join fsys pth names\<close>: from \<open>pth\<close> down along \<open>names\<close> every path is a
  directory that lists the next name, and every entry listed before that name is hashed
  without error. This is how the walk arrives at \<open>foldl join pth names\<close>.\<close>

fun descends :: "nat \<Rightarrow> (string \<Rightarrow> string \<Rightarrow> string) \<Rightarrow> FS \<Rightarrow> string \<Rightarrow> string list \<Rightarrow> bool" where
  "descends depth join fsys pth [] = True"
| "descends 0 join fsys pth (name # names) = False"
| "descends (Suc depth) join fsys pth (name # names) =
     (case Lstat fsys pth of
        Inl err \<Rightarrow> False
      | Inr fi \<Rightarrow>
          Mode fi AND ModeType = ModeDir \<and>
          (case ReadDir fsys pth of
             Inl err \<Rightarrow> False
           | Inr dirEnts \<Rightarrow>
               name \<in> set dirEnts \<and>
               (\<forall>n \<in> set (takeWhile (\<lambda>n. n \<noteq> name) dirEnts).
                   succeeded (hashSomething (Suc depth) join fsys (join pth n))) \<and>
               descends depth join fsys (join pth name) names))"

text \<open>The type names of the outer \<open>switch\<close> for the modes whose type bits are exactly one
  of its unsupported cases.\<close>

definition unsupportedName :: "FileMode \<Rightarrow> string option" where
  "unsupportedName mode =
     (let ty = mode AND ModeType in
      if ty = ModeNamedPipe then Some ''pipe''
      else if ty = ModeSocket then Some ''socket''
      else if ty = ModeDevice \<or> ty = ModeCharDevice then Some ''device''
      else if ty = ModeIrregular then Some ''irregular''
      else None)"

section \<open>Two enumerations of one directory\<close>

text \<open>Two answers to the enumeration of a directory that differ at most in the order of
  the entries: the same error, or the same names, each as often in one as in the other.\<close>

definition sameEntries :: "string + string list \<Rightarrow> string + string list \<Rightarrow> bool" where
  "sameEntries a b =
     (case (a, b) of
        (Inl err1, Inl err2) \<Rightarrow> err1 = err2
      | (Inr names1, Inr names2) \<Rightarrow> mset names1 = mset names2
      | _ \<Rightarrow> False)"

section \<open>A filesystem for the examples\<close>

text \<open>A stand-in for the collaborator, given by four tables; a path that a table does
  not have makes the call fail.\<close>

definition lookup :: "(string \<times> 'a) list \<Rightarrow> string \<Rightarrow> string + 'a" where
  "lookup table pth =
     (case map_of table pth of None \<Rightarrow> Inl ''no such file or directory'' | Some x \<Rightarrow> Inr x)"

definition tableFS :: "(string \<times> FileInfo) list \<Rightarrow> (string \<times> Reader) list
    \<Rightarrow> (string \<times> string) list \<Rightarrow> (string \<times> string list) list \<Rightarrow> FS" where
  "tableFS stats files links dirs =
     \<lparr>Lstat = lookup stats, Open = lookup files, Readlink = lookup links, Listing = lookup dirs\<rparr>"

text \<open>\<open>filepath.Join\<close> on the paths of the examples, which are clean and relative.\<close>

definition joinPath :: "string \<Rightarrow> string \<Rightarrow> string" where
  "joinPath pth name = pth @ ''/'' @ name"

text \<open>The permissions \<open>0o644\<close>, \<open>0o755\<close> and \<open>0o777\<close> are \<open>0x1A4\<close>, \<open>0x1ED\<close> and \<open>0x1FF\<close>.\<close>

definition exampleStats :: "(string \<times> FileInfo) list" where
  "exampleStats = [
     (''a_file'', \<lparr>Mode = 0x1A4, Size = 7\<rparr>),
     (''a_symlink'', \<lparr>Mode = ModeSymlink OR 0x1FF, Size = 13\<rparr>),
     (''empty'', \<lparr>Mode = 0x1A4, Size = 0\<rparr>),
     (''emptydir'', \<lparr>Mode = ModeDir OR 0x1ED, Size = 4096\<rparr>),
     (''grown'', \<lparr>Mode = 0x1A4, Size = 8\<rparr>),
     (''stale'', \<lparr>Mode = ModeSymlink OR 0x1FF, Size = 14\<rparr>),
     (''gone'', \<lparr>Mode = ModeSymlink OR 0x1FF, Size = 13\<rparr>),
     (''d'', \<lparr>Mode = ModeDir OR 0x1ED, Size = 4096\<rparr>),
     (''d/exe'', \<lparr>Mode = 0x1ED, Size = 3\<rparr>),
     (''d/link'', \<lparr>Mode = ModeSymlink OR 0x1FF, Size = 13\<rparr>),
     (''d/name'', \<lparr>Mode = 0x1A4, Size = 3\<rparr>),
     (''d/sub'', \<lparr>Mode = ModeDir OR 0x1ED, Size = 4096\<rparr>),
     (''p'', \<lparr>Mode = ModeDir OR 0x1ED, Size = 4096\<rparr>),
     (''p/name'', \<lparr>Mode = 0x1A4, Size = 3\<rparr>),
     (''p/sub'', \<lparr>Mode = ModeDir OR 0x1ED, Size = 4096\<rparr>),
     (''t'', \<lparr>Mode = ModeDir OR 0x1ED, Size = 4096\<rparr>),
     (''t/a'', \<lparr>Mode = 0x1A4, Size = 0\<rparr>),
     (''t/n'', \<lparr>Mode = ModeDir OR 0x1ED, Size = 4096\<rparr>),
     (''t/n/fifo'', \<lparr>Mode = ModeNamedPipe OR 0x1A4, Size = 0\<rparr>),
     (''t/n/sock'', \<lparr>Mode = ModeSocket OR 0x1ED, Size = 0\<rparr>),
     (''u'', \<lparr>Mode = ModeDir OR 0x1ED, Size = 4096\<rparr>),
     (''u/fifo'', \<lparr>Mode = ModeNamedPipe OR 0x1A4, Size = 0\<rparr>),
     (''torn'', \<lparr>Mode = 0x1A4, Size = 5\<rparr>)]"

definition exampleFiles :: "(string \<times> Reader) list" where
  "exampleFiles = [
     (''a_file'', BufferReader (bytes_of ''a file'' @ [0x0A])),
     (''empty'', BufferReader []),
     (''grown'', BufferReader (bytes_of ''a file'' @ [0x0A])),
     (''d/exe'', BufferReader (bytes_of ''abc'')),
     (''d/name'', BufferReader (bytes_of ''abc'')),
     (''p/name'', BufferReader (bytes_of ''abc'')),
     (''t/a'', BufferReader []),
     (''torn'', \<lparr>content = [0x6F, 0x62], failure = Some ''input/output error''\<rparr>)]"

definition exampleLinks :: "(string \<times> string) list" where
  "exampleLinks = [
     (''a_symlink'', ''target string''),
     (''stale'', ''target string''),
     (''d/link'', ''target string'')]"

definition exampleDirs :: "(string \<times> string list) list" where
  "exampleDirs = [
     (''emptydir'', []),
     (''d'', [''exe'', ''link'', ''name'', ''sub'']),
     (''d/sub'', []),
     (''p'', [''name'', ''sub'']),
     (''p/sub'', []),
     (''t'', [''a'', ''n'', ''z'']),
     (''t/n'', [''fifo'', ''sock'']),
     (''u'', [''broken'', ''fifo''])]"

definition exampleFS :: FS where
  "exampleFS = tableFS exampleStats exampleFiles exampleLinks exampleDirs"

text \<open>The same filesystem, which enumerates the entries of \<open>p\<close> in the other order.\<close>

definition reorderedFS :: FS where
  "reorderedFS = tableFS exampleStats exampleFiles exampleLinks ((''p'', [''sub'', ''name'']) # exampleDirs)"

text \<open>The same filesystem again, with a file at the path that the links name.\<close>

definition targetFS :: FS where
  "targetFS = tableFS ((''target string'', \<lparr>Mode = 0x1A4, Size = 0\<rparr>) # exampleStats)
       ((''target string'', BufferReader []) # exampleFiles) exampleLinks exampleDirs"

section \<open>Facts about the building blocks\<close>

lemma Itoa_examples:
  "Itoa 0 = ''0''" "Itoa 3 = ''3''" "Itoa 7 = ''7''" "Itoa 8 = ''8''" "Itoa 13 = ''13''"
  "Itoa 14 = ''14''" "Itoa 86 = ''86''"
  by (simp_all add: Itoa_def digits.simps digit_def)

lemma mode_values:
  "ModeDir = 0x80000000" "ModeSymlink = 0x8000000" "ModeDevice = 0x4000000"
  "ModeNamedPipe = 0x2000000" "ModeSocket = 0x1000000" "ModeCharDevice = 0x200000"
  "ModeIrregular = 0x80000" "ModeType = 0x8F280000"
  by (simp_all add: ModeDir_def ModeSymlink_def ModeDevice_def ModeNamedPipe_def
      ModeSocket_def ModeCharDevice_def ModeIrregular_def ModeType_def)

lemma length_round256: "length s = 8 \<Longrightarrow> length (round256 s k w) = 8"
  by (induction s k w rule: round256.induct) (simp_all add: Let_def)

lemma length_rounds256: "length s = 8 \<Longrightarrow> length (rounds256 ks w s) = 8"
  by (induction ks arbitrary: w s) (simp_all add: length_round256)

lemma length_block256: "length hs = 8 \<Longrightarrow> length (block256 hs p) = 8"
  by (simp add: block256_def length_rounds256)

lemma length_blocks256: "length hs = 8 \<Longrightarrow> length (blocks256 hs p) = 8"
proof (induction hs p rule: blocks256.induct)
  case (1 hs p)
  show ?case
  proof (cases "length p < 64")
    case True
    with "1.prems" show ?thesis by (simp add: blocks256.simps)
  next
    case False
    with "1.IH" "1.prems" show ?thesis
      by (subst blocks256.simps) (simp add: length_block256)
  qed
qed

lemma length_concat_bytes32: "length (concat (map bytes32 ws)) = 4 * length ws"
  by (induction ws) (simp_all add: bytes32_def)

lemma length_sha256: "length (sha256 m) = 32"
  by (simp add: sha256_def length_concat_bytes32 length_blocks256 init256_def)

lemma length_zeroHash: "length zeroHash = 32"
  by (simp add: zeroHash_def)

lemma exec_bits: "(m AND 0x49 \<noteq> 0) = spec_executable m" for m :: FileMode
proof -
  have e: "(0x49 :: 32 word) = 2 ^ 0 OR 2 ^ 3 OR 2 ^ 6" by simp
  have "m AND 0x49 = (m AND 2 ^ 0) OR (m AND 2 ^ 3) OR (m AND 2 ^ 6)"
    unfolding e by (simp only: bit.conj_disj_distrib)
  then have "(m AND 0x49 = 0) = (\<not> bit m 0 \<and> \<not> bit m 3 \<and> \<not> bit m 6)"
    by (simp only: or_eq_0_iff and_exp_eq_0_iff_not_bit)
  then show ?thesis by (simp add: spec_executable_def)
qed

lemma bytes_of_append: "bytes_of (s @ t) = bytes_of s @ bytes_of t"
  by (simp add: bytes_of_def)

lemma length_bytes_of: "length (bytes_of s) = length s"
  by (simp add: bytes_of_def)

lemma bytes_of_space: "bytes_of '' '' = [0x20]"
  by (simp add: bytes_of_def)

lemma entryMode_spec:
  assumes "m AND ModeType = 0 \<or> m AND ModeType = ModeSymlink \<or> m AND ModeType = ModeDir"
  shows "entryMode m = Some (spec_modeString m @ '' '')"
  using assms
  by (auto simp: entryMode_def spec_modeString_def Let_def exec_bits mode_values)

lemma entryMode_None:
  "entryMode m = None \<longleftrightarrow>
     \<not> (m AND ModeType = 0 \<or> m AND ModeType = ModeSymlink \<or> m AND ModeType = ModeDir)"
  by (auto simp: entryMode_def Let_def)

subsection \<open>hashStream over a preamble and a source\<close>

lemma MultiReader_concat:
  "\<forall>r \<in> set rs. failure r = None \<Longrightarrow>
   MultiReader rs = \<lparr>content = concat (map content rs), failure = None\<rparr>"
  by (induction rs) simp_all

lemma MultiReader_failing:
  "\<forall>r \<in> set good. failure r = None \<Longrightarrow> failure bad = Some err \<Longrightarrow>
   content (MultiReader (good @ bad # rest)) = concat (map content good) @ content bad \<and>
   failure (MultiReader (good @ bad # rest)) = Some err"
  by (induction good) simp_all

lemma BufferReader_sel: "content (BufferReader bs) = bs" "failure (BufferReader bs) = None"
  by (simp_all add: BufferReader_def)

lemma hashStream_preamble:
  "hashStream (MultiReader [BufferReader pre, f]) =
     (case failure f of
        Some err \<Rightarrow> (zeroHash, int (length pre) + int (length (content f)), Some (IOFailure err))
      | None \<Rightarrow> (sha256 (pre @ content f), int (length pre) + int (length (content f)), None))"
  by (simp add: hashStream_def BufferReader_def Let_def split: option.split)

subsection \<open>hashSomething, one branch of the switch at a time\<close>

lemma hashSomething_lstat_fails:
  "Lstat fsys pth = Inl err \<Longrightarrow>
   hashSomething (Suc depth) join fsys pth = Some (Return zeroHash 0 (Some (IOFailure err)))"
  by simp

lemma hashSomething_regular:
  assumes "Lstat fsys pth = Inr fi" and "Mode fi AND ModeType = 0"
  shows "hashSomething (Suc depth) join fsys pth =
     Some (case Open fsys pth of
             Inl err \<Rightarrow> Return zeroHash (Mode fi) (Some (IOFailure err))
           | Inr f \<Rightarrow>
              (case failure f of
                 Some err \<Rightarrow> Return zeroHash (Mode fi) (Some (IOFailure err))
               | None \<Rightarrow>
                  if int (length (content f)) \<noteq> Size fi
                  then Return (sha256 (preamble ''blob '' (Size fi) @ content f)) (Mode fi)
                         (Some (SizeMismatch (Size fi) (int (length (content f))) pth))
                  else Return (sha256 (preamble ''blob '' (Size fi) @ content f)) (Mode fi) None))"
  using assms
  by (simp add: Let_def hashStream_preamble del: MultiReader.simps split: sum.split option.split)

lemma hashSomething_symlink:
  assumes "Lstat fsys pth = Inr fi" and "Mode fi AND ModeType = ModeSymlink"
  shows "hashSomething (Suc depth) join fsys pth =
     Some (case Readlink fsys pth of
             Inl err \<Rightarrow> Return zeroHash (Mode fi) (Some (ReadlinkFailure pth err))
           | Inr target \<Rightarrow>
               if int (length target) \<noteq> Size fi
               then Return (sha256 (preamble ''blob '' (Size fi) @ bytes_of target)) (Mode fi)
                      (Some (SizeMismatch (Size fi) (int (length target)) pth))
               else Return (sha256 (preamble ''blob '' (Size fi) @ bytes_of target)) (Mode fi) None)"
  using assms
  by (simp add: Let_def hashStream_preamble BufferReader_sel length_bytes_of mode_values
      del: MultiReader.simps split: sum.split)

lemma hashSomething_dir:
  assumes "Lstat fsys pth = Inr fi" and "Mode fi AND ModeType = ModeDir"
  shows "hashSomething (Suc depth) join fsys pth =
     (case ReadDir fsys pth of
        Inl err \<Rightarrow> Some (Return zeroHash (Mode fi) (Some (IOFailure err)))
      | Inr dirEnts \<Rightarrow>
         (case dirLoop (hashSomething depth join fsys) join pth (Mode fi) dirEnts [] of
            None \<Rightarrow> None
          | Some (Inl out) \<Rightarrow> Some out
          | Some (Inr buf) \<Rightarrow>
              Some (Return (sha256 (preamble ''tree '' (int (length buf)) @ buf)) (Mode fi) None)))"
  using assms
  by (simp add: Let_def hashStream_preamble BufferReader_sel mode_values
      del: MultiReader.simps split: sum.split option.split)

lemma hashSomething_unsupported:
  assumes "Lstat fsys pth = Inr fi"
  shows "Mode fi AND ModeType = ModeNamedPipe \<Longrightarrow> hashSomething (Suc depth) join fsys pth =
           Some (Return zeroHash (Mode fi) (Some (UnsupportedFileType ''pipe'' pth)))"
    and "Mode fi AND ModeType = ModeSocket \<Longrightarrow> hashSomething (Suc depth) join fsys pth =
           Some (Return zeroHash (Mode fi) (Some (UnsupportedFileType ''socket'' pth)))"
    and "Mode fi AND ModeType = ModeDevice \<or> Mode fi AND ModeType = ModeCharDevice \<Longrightarrow>
         hashSomething (Suc depth) join fsys pth =
           Some (Return zeroHash (Mode fi) (Some (UnsupportedFileType ''device'' pth)))"
    and "Mode fi AND ModeType = ModeIrregular \<Longrightarrow> hashSomething (Suc depth) join fsys pth =
           Some (Return zeroHash (Mode fi) (Some (UnsupportedFileType ''irregular'' pth)))"
  using assms by (auto simp: Let_def mode_values)

text \<open>\<open>os.Lstat\<close> reports a character device with both \<open>ModeDevice\<close> and
  \<open>ModeCharDevice\<close>. That value is none of the cases of the \<open>switch\<close>, which compares with
  each of the two bits alone, and the call ends in the \<open>default\<close> branch.\<close>

lemma hashSomething_char_device:
  assumes "Lstat fsys pth = Inr fi" and "Mode fi AND ModeType = ModeDevice OR ModeCharDevice"
  shows "hashSomething (Suc depth) join fsys pth =
           Some (Panic ''unreachable?  'irregular' should be the catch-all here'')"
  using assms by (simp add: Let_def mode_values)

text \<open>From here on the branches above are used instead of the definition.\<close>

declare hashSomething.simps(2) [simp del]

subsection \<open>The directory loop\<close>

lemma succeeded_iff: "succeeded r \<longleftrightarrow> (\<exists>hash mode. r = Some (Return hash mode None))"
  by (auto simp: succeeded_def split: option.splits outcome.splits)

text \<open>The loop ends without a buffer only by an error return with the zero hash or by a
  panic.\<close>

lemma dirLoop_Inl:
  "dirLoop self join pth mode dirEnts buf = Some (Inl out) \<Longrightarrow>
   (\<exists>err. out = Return zeroHash mode (Some err)) \<or> (\<exists>msg. out = Panic msg)"
  by (induction dirEnts arbitrary: buf)
     (auto split: option.splits outcome.splits)

text \<open>When every entry is hashed without error, the buffer is the concatenation of the
  entries in the order of the listing.\<close>

lemma dirLoop_all_succeed:
  assumes "map (\<lambda>name. self (join pth name)) dirEnts =
           map (\<lambda>child. Some (Return (fst child) (snd child) None)) children"
    and "\<forall>child \<in> set children. snd child AND ModeType = 0 \<or>
           snd child AND ModeType = ModeSymlink \<or> snd child AND ModeType = ModeDir"
  shows "dirLoop self join pth mode dirEnts buf = Some (Inr (buf @ spec_body dirEnts children))"
  using assms
proof (induction dirEnts arbitrary: buf children)
  case Nil
  then show ?case by (simp add: spec_body_def)
next
  case (Cons name dirEnts)
  from Cons.prems(1) obtain child rest where children: "children = child # rest"
    by (cases children) auto
  from Cons.prems(1) children
  have self: "self (join pth name) = Some (Return (fst child) (snd child) None)"
    and rest: "map (\<lambda>name. self (join pth name)) dirEnts =
               map (\<lambda>child. Some (Return (fst child) (snd child) None)) rest"
    by simp_all
  from Cons.prems(2) children
  have mode: "entryMode (snd child) = Some (spec_modeString (snd child) @ '' '')"
    and modes: "\<forall>child \<in> set rest. snd child AND ModeType = 0 \<or>
           snd child AND ModeType = ModeSymlink \<or> snd child AND ModeType = ModeDir"
    by (simp_all add: entryMode_spec)
  have "dirLoop self join pth mode (name # dirEnts) buf =
        dirLoop self join pth mode dirEnts
          (buf @ bytes_of (spec_modeString (snd child) @ '' '') @ bytes_of name @ [0] @ fst child)"
    by (simp add: self mode)
  also have "\<dots> = Some (Inr ((buf @ bytes_of (spec_modeString (snd child) @ '' '')
                 @ bytes_of name @ [0] @ fst child) @ spec_body dirEnts rest))"
    by (rule Cons.IH [OF rest modes])
  also have "(buf @ bytes_of (spec_modeString (snd child) @ '' '') @ bytes_of name @ [0] @ fst child)
               @ spec_body dirEnts rest = buf @ spec_body (name # dirEnts) children"
    by (simp add: spec_body_def spec_entry_def children bytes_of_append bytes_of_space)
  finally show ?case .
qed

text \<open>The loop depends on the recursive call only at the paths of the listing.\<close>

lemma dirLoop_cong:
  "\<forall>name \<in> set dirEnts. self (join pth name) = self' (join pth name) \<Longrightarrow>
   dirLoop self join pth mode dirEnts buf = dirLoop self' join pth mode dirEnts buf"
  by (induction dirEnts arbitrary: buf)
     (auto split: option.splits outcome.splits)

subsection \<open>What a call returns\<close>

text \<open>A call that returns without error found a regular file, a symbolic link or a
  directory, and its hash is a digest of 32 bytes.\<close>

lemma hashSomething_succeeds:
  assumes "hashSomething depth join fsys pth = Some (Return hash mode None)"
  shows "\<exists>fi. Lstat fsys pth = Inr fi \<and> mode = Mode fi \<and> length hash = 32 \<and>
           (mode AND ModeType = 0 \<or> mode AND ModeType = ModeSymlink \<or> mode AND ModeType = ModeDir)"
proof (cases depth)
  case 0
  with assms show ?thesis by simp
next
  case (Suc d)
  show ?thesis
  proof (cases "Lstat fsys pth")
    case (Inl err)
    with assms Suc show ?thesis by (simp add: hashSomething_lstat_fails)
  next
    case (Inr fi)
    consider (reg) "Mode fi AND ModeType = 0" | (link) "Mode fi AND ModeType = ModeSymlink"
      | (dir) "Mode fi AND ModeType = ModeDir"
      | (other) "Mode fi AND ModeType \<noteq> 0" "Mode fi AND ModeType \<noteq> ModeSymlink"
          "Mode fi AND ModeType \<noteq> ModeDir"
      by blast
    then show ?thesis
    proof cases
      case reg
      from assms show ?thesis
        unfolding Suc hashSomething_regular [OF Inr reg]
        by (auto simp: Inr reg length_sha256 split: sum.splits option.splits if_splits)
    next
      case link
      from assms show ?thesis
        unfolding Suc hashSomething_symlink [OF Inr link]
        by (auto simp: Inr link length_sha256 split: sum.splits if_splits)
    next
      case dir
      from assms show ?thesis
        unfolding Suc hashSomething_dir [OF Inr dir]
        by (auto simp: Inr dir length_sha256 split: sum.splits option.splits dest: dirLoop_Inl)
    next
      case other
      with assms Suc Inr show ?thesis
        by (auto simp: hashSomething.simps(2) Let_def split: if_splits)
    qed
  qed
qed

text \<open>The loop stops at the first entry whose hashing returns an error: the entries before
  it were hashed without error, and nothing is asked about those after it.\<close>

lemma dirLoop_stops:
  assumes "\<forall>n \<in> set before. succeeded (hashSomething depth join fsys (join pth n))"
    and "hashSomething depth join fsys (join pth name) = Some (Return hash dirEntMode (Some err))"
  shows "dirLoop (hashSomething depth join fsys) join pth mode (before @ name # after) buf =
           Some (Inl (Return zeroHash mode (Some err)))"
  using assms(1)
proof (induction before arbitrary: buf)
  case Nil
  show ?case by (simp add: assms(2))
next
  case (Cons n before)
  then obtain h m where n: "hashSomething depth join fsys (join pth n) = Some (Return h m None)"
    by (auto simp: succeeded_iff)
  from hashSomething_succeeds [OF n]
  have "entryMode m = Some (spec_modeString m @ '' '')"
    by (auto intro: entryMode_spec)
  with Cons n show ?case by simp
qed

lemma split_at_name:
  "name \<in> set xs \<Longrightarrow>
   xs = takeWhile (\<lambda>n. n \<noteq> name) xs @ name # tl (dropWhile (\<lambda>n. n \<noteq> name) xs)"
  by (induction xs) auto

text \<open>A call that returns an error returns the zero hash with it, unless the error is the
  size mismatch of a regular file or of a symbolic link at this very path.\<close>

lemma hashSomething_error_hash:
  assumes "hashSomething depth join fsys pth = Some (Return hash mode (Some err))"
  shows "hash = zeroHash \<or>
         (\<exists>fi observed. Lstat fsys pth = Inr fi \<and>
            (Mode fi AND ModeType = 0 \<or> Mode fi AND ModeType = ModeSymlink) \<and>
            err = SizeMismatch (Size fi) observed pth)"
proof (cases depth)
  case 0
  with assms show ?thesis by simp
next
  case (Suc d)
  show ?thesis
  proof (cases "Lstat fsys pth")
    case (Inl e)
    with assms Suc show ?thesis by (simp add: hashSomething_lstat_fails)
  next
    case (Inr fi)
    consider (reg) "Mode fi AND ModeType = 0" | (link) "Mode fi AND ModeType = ModeSymlink"
      | (dir) "Mode fi AND ModeType = ModeDir"
      | (other) "Mode fi AND ModeType \<noteq> 0" "Mode fi AND ModeType \<noteq> ModeSymlink"
          "Mode fi AND ModeType \<noteq> ModeDir"
      by blast
    then show ?thesis
    proof cases
      case reg
      from assms show ?thesis
        unfolding Suc hashSomething_regular [OF Inr reg]
        by (auto simp: Inr reg split: sum.splits option.splits if_splits)
    next
      case link
      from assms show ?thesis
        unfolding Suc hashSomething_symlink [OF Inr link]
        by (auto simp: Inr link split: sum.splits if_splits)
    next
      case dir
      from assms show ?thesis
        unfolding Suc hashSomething_dir [OF Inr dir]
        by (auto simp: Inr dir split: sum.splits option.splits dest: dirLoop_Inl)
    next
      case other
      with assms Suc Inr show ?thesis
        by (auto simp: hashSomething.simps(2) Let_def split: if_splits)
    qed
  qed
qed

text \<open>More depth does not change what a call returns.\<close>

lemma dirLoop_mono:
  assumes "\<And>p r. self p = Some r \<Longrightarrow> self' p = Some r"
  shows "dirLoop self join pth mode dirEnts buf = Some x \<Longrightarrow>
         dirLoop self' join pth mode dirEnts buf = Some x"
proof (induction dirEnts arbitrary: buf)
  case Nil
  then show ?case by simp
next
  case (Cons name dirEnts)
  from Cons.prems obtain r where r: "self (join pth name) = Some r"
    by (auto split: option.splits)
  then have r': "self' (join pth name) = Some r" by (rule assms)
  from Cons.prems Cons.IH show ?case
    by (auto simp: r r' split: outcome.splits option.splits)
qed

lemma hashSomething_Suc:
  "hashSomething depth join fsys pth = Some r \<Longrightarrow> hashSomething (Suc depth) join fsys pth = Some r"
proof (induction depth arbitrary: pth r)
  case 0
  then show ?case by simp
next
  case (Suc depth)
  show ?case
  proof (cases "Lstat fsys pth")
    case (Inl err)
    with Suc.prems show ?thesis by (simp add: hashSomething_lstat_fails)
  next
    case (Inr fi)
    note lstat = Inr
    show ?thesis
    proof (cases "Mode fi AND ModeType = ModeDir")
      case True
      note dir = hashSomething_dir [OF lstat True]
      show ?thesis
      proof (cases "ReadDir fsys pth")
        case (Inl err)
        with Suc.prems show ?thesis unfolding dir by simp
      next
        case (Inr dirEnts)
        from Suc.prems obtain x
          where x: "dirLoop (hashSomething depth join fsys) join pth (Mode fi) dirEnts [] = Some x"
          unfolding dir Inr by (auto split: option.splits)
        have x': "dirLoop (hashSomething (Suc depth) join fsys) join pth (Mode fi) dirEnts [] = Some x"
          by (rule dirLoop_mono [OF Suc.IH x])
        from Suc.prems show ?thesis unfolding dir Inr by (simp add: x x')
      qed
    next
      case False
      have "hashSomething (Suc (Suc depth)) join fsys pth = hashSomething (Suc depth) join fsys pth"
        using lstat False by (simp add: hashSomething.simps(2) Let_def)
      with Suc.prems show ?thesis by simp
    qed
  qed
qed

lemma hashSomething_more_depth:
  "hashSomething depth join fsys pth = Some r \<Longrightarrow> hashSomething (depth + k) join fsys pth = Some r"
proof (induction k)
  case 0
  then show ?case by simp
next
  case (Suc k)
  then have "hashSomething (Suc (depth + k)) join fsys pth = Some r"
    by (intro hashSomething_Suc) simp
  then show ?case by (simp only: add_Suc_right)
qed

subsection \<open>The order of the enumeration\<close>

lemma ReadDir_Listing: "Listing fsys pth = Inr names \<Longrightarrow> ReadDir fsys pth = Inr (sort names)"
  by (simp add: ReadDir_def)

lemma sort_same_entries: "mset xs = mset ys \<Longrightarrow> sort xs = sort ys" for xs :: "string list"
  by (rule properties_for_sort) simp_all

lemma ReadDir_same_entries:
  assumes "sameEntries (Listing fs1 pth) (Listing fs2 pth)"
  shows "ReadDir fs1 pth = ReadDir fs2 pth"
proof (cases "Listing fs1 pth")
  case (Inl err1)
  with assms show ?thesis
    by (cases "Listing fs2 pth") (simp_all add: sameEntries_def ReadDir_def)
next
  case (Inr names1)
  with assms obtain names2 where names2: "Listing fs2 pth = Inr names2"
    by (cases "Listing fs2 pth") (simp_all add: sameEntries_def)
  with assms Inr have "mset names1 = mset names2"
    by (simp add: sameEntries_def)
  then have "sort names1 = sort names2"
    by (rule sort_same_entries)
  with Inr names2 show ?thesis
    by (simp add: ReadDir_def)
qed

text \<open>A call depends on the filesystem only through the answers of the four calls.\<close>

lemma hashSomething_same_calls:
  assumes "Lstat fs1 = Lstat fs2" and "Open fs1 = Open fs2" and "Readlink fs1 = Readlink fs2"
    and "\<And>p. ReadDir fs1 p = ReadDir fs2 p"
  shows "hashSomething depth join fs1 pth = hashSomething depth join fs2 pth"
proof (induction depth arbitrary: pth)
  case 0
  show ?case by simp
next
  case (Suc depth)
  then have "hashSomething depth join fs1 = hashSomething depth join fs2"
    by (intro ext)
  then show ?case
    by (simp only: hashSomething.simps(2) assms)
qed

subsection \<open>The example filesystem\<close>

lemmas example_defs = exampleFS_def reorderedFS_def targetFS_def ReadDir_def tableFS_def lookup_def exampleStats_def
  exampleFiles_def exampleLinks_def exampleDirs_def

lemma example_modes:
  "(0x1A4 :: FileMode) AND ModeType = 0"
  "(0x1ED :: FileMode) AND ModeType = 0"
  "(ModeDir OR 0x1ED) AND ModeType = ModeDir"
  "(ModeSymlink OR 0x1FF) AND ModeType = ModeSymlink"
  "(ModeNamedPipe OR 0x1A4) AND ModeType = ModeNamedPipe"
  "(ModeSocket OR 0x1ED) AND ModeType = ModeSocket"
  by (simp_all add: mode_values)

lemma example_Lstat:
  "Lstat exampleFS ''a_file'' = Inr \<lparr>Mode = 0x1A4, Size = 7\<rparr>"
  "Lstat exampleFS ''a_symlink'' = Inr \<lparr>Mode = ModeSymlink OR 0x1FF, Size = 13\<rparr>"
  "Lstat exampleFS ''empty'' = Inr \<lparr>Mode = 0x1A4, Size = 0\<rparr>"
  "Lstat exampleFS ''emptydir'' = Inr \<lparr>Mode = ModeDir OR 0x1ED, Size = 4096\<rparr>"
  "Lstat exampleFS ''grown'' = Inr \<lparr>Mode = 0x1A4, Size = 8\<rparr>"
  "Lstat exampleFS ''stale'' = Inr \<lparr>Mode = ModeSymlink OR 0x1FF, Size = 14\<rparr>"
  "Lstat exampleFS ''gone'' = Inr \<lparr>Mode = ModeSymlink OR 0x1FF, Size = 13\<rparr>"
  "Lstat exampleFS ''d'' = Inr \<lparr>Mode = ModeDir OR 0x1ED, Size = 4096\<rparr>"
  "Lstat exampleFS ''d/exe'' = Inr \<lparr>Mode = 0x1ED, Size = 3\<rparr>"
  "Lstat exampleFS ''d/link'' = Inr \<lparr>Mode = ModeSymlink OR 0x1FF, Size = 13\<rparr>"
  "Lstat exampleFS ''d/name'' = Inr \<lparr>Mode = 0x1A4, Size = 3\<rparr>"
  "Lstat exampleFS ''d/sub'' = Inr \<lparr>Mode = ModeDir OR 0x1ED, Size = 4096\<rparr>"
  "Lstat exampleFS ''p'' = Inr \<lparr>Mode = ModeDir OR 0x1ED, Size = 4096\<rparr>"
  "Lstat exampleFS ''p/name'' = Inr \<lparr>Mode = 0x1A4, Size = 3\<rparr>"
  "Lstat exampleFS ''p/sub'' = Inr \<lparr>Mode = ModeDir OR 0x1ED, Size = 4096\<rparr>"
  "Lstat exampleFS ''t'' = Inr \<lparr>Mode = ModeDir OR 0x1ED, Size = 4096\<rparr>"
  "Lstat exampleFS ''t/a'' = Inr \<lparr>Mode = 0x1A4, Size = 0\<rparr>"
  "Lstat exampleFS ''t/n'' = Inr \<lparr>Mode = ModeDir OR 0x1ED, Size = 4096\<rparr>"
  "Lstat exampleFS ''t/n/fifo'' = Inr \<lparr>Mode = ModeNamedPipe OR 0x1A4, Size = 0\<rparr>"
  "Lstat exampleFS ''u'' = Inr \<lparr>Mode = ModeDir OR 0x1ED, Size = 4096\<rparr>"
  "Lstat exampleFS ''u/broken'' = Inl ''no such file or directory''"
  "Lstat exampleFS ''u/fifo'' = Inr \<lparr>Mode = ModeNamedPipe OR 0x1A4, Size = 0\<rparr>"
  "Lstat exampleFS ''torn'' = Inr \<lparr>Mode = 0x1A4, Size = 5\<rparr>"
  by (simp_all add: example_defs)

lemma example_Open:
  "Open exampleFS ''a_file'' = Inr (BufferReader (bytes_of ''a file'' @ [0x0A]))"
  "Open exampleFS ''empty'' = Inr (BufferReader [])"
  "Open exampleFS ''grown'' = Inr (BufferReader (bytes_of ''a file'' @ [0x0A]))"
  "Open exampleFS ''d/exe'' = Inr (BufferReader (bytes_of ''abc''))"
  "Open exampleFS ''d/name'' = Inr (BufferReader (bytes_of ''abc''))"
  "Open exampleFS ''p/name'' = Inr (BufferReader (bytes_of ''abc''))"
  "Open exampleFS ''t/a'' = Inr (BufferReader [])"
  "Open exampleFS ''torn'' =
     Inr \<lparr>content = [0x6F, 0x62], failure = Some ''input/output error''\<rparr>"
  by (simp_all add: example_defs)

lemma example_Readlink:
  "Readlink exampleFS ''a_symlink'' = Inr ''target string''"
  "Readlink exampleFS ''stale'' = Inr ''target string''"
  "Readlink exampleFS ''gone'' = Inl ''no such file or directory''"
  "Readlink exampleFS ''d/link'' = Inr ''target string''"
  by (simp_all add: example_defs)

lemma example_ReadDir:
  "ReadDir exampleFS ''emptydir'' = Inr []"
  "ReadDir exampleFS ''d'' = Inr [''exe'', ''link'', ''name'', ''sub'']"
  "ReadDir exampleFS ''d/sub'' = Inr []"
  "ReadDir exampleFS ''p'' = Inr [''name'', ''sub'']"
  "ReadDir exampleFS ''p/sub'' = Inr []"
  "ReadDir exampleFS ''t'' = Inr [''a'', ''n'', ''z'']"
  "ReadDir exampleFS ''t/n'' = Inr [''fifo'', ''sock'']"
  "ReadDir exampleFS ''u'' = Inr [''broken'', ''fifo'']"
  by (simp_all add: example_defs)

lemma reordered_same:
  "Lstat reorderedFS = Lstat exampleFS" "Open reorderedFS = Open exampleFS"
  "Readlink reorderedFS = Readlink exampleFS"
  by (simp_all add: exampleFS_def reorderedFS_def tableFS_def)

lemma example_Listing:
  "Listing exampleFS ''p'' = Inr [''name'', ''sub'']"
  "Listing reorderedFS ''p'' = Inr [''sub'', ''name'']"
  by (simp_all add: example_defs)

lemma example_same_entries: "sameEntries (Listing exampleFS p) (Listing reorderedFS p)"
  by (simp add: sameEntries_def exampleFS_def reorderedFS_def tableFS_def lookup_def
      exampleDirs_def add.commute split: option.split)

lemma target_facts:
  "Lstat targetFS ''a_symlink'' = Inr \<lparr>Mode = ModeSymlink OR 0x1FF, Size = 13\<rparr>"
  "Readlink targetFS ''a_symlink'' = Inr ''target string''"
  "Lstat targetFS ''target string'' = Inr \<lparr>Mode = 0x1A4, Size = 0\<rparr>"
  "Lstat exampleFS ''target string'' = Inl ''no such file or directory''"
  by (simp_all add: example_defs)

lemma example_children:
  "hashSomething (Suc 0) joinPath exampleFS ''d/exe'' =
     Some (Return (sha256 (preamble ''blob '' 3 @ bytes_of ''abc'')) 0x1ED None)"
  "hashSomething (Suc 0) joinPath exampleFS ''d/link'' =
     Some (Return (sha256 (preamble ''blob '' 13 @ bytes_of ''target string''))
        (ModeSymlink OR 0x1FF) None)"
  "hashSomething (Suc 0) joinPath exampleFS ''d/name'' =
     Some (Return (sha256 (preamble ''blob '' 3 @ bytes_of ''abc'')) 0x1A4 None)"
  "hashSomething (Suc 0) joinPath exampleFS ''d/sub'' =
     Some (Return (sha256 (preamble ''tree '' 0)) (ModeDir OR 0x1ED) None)"
  "hashSomething (Suc 0) joinPath exampleFS ''p/name'' =
     Some (Return (sha256 (preamble ''blob '' 3 @ bytes_of ''abc'')) 0x1A4 None)"
  "hashSomething (Suc 0) joinPath exampleFS ''p/sub'' =
     Some (Return (sha256 (preamble ''tree '' 0)) (ModeDir OR 0x1ED) None)"
  "hashSomething (Suc depth) joinPath exampleFS ''t/a'' =
     Some (Return (sha256 (preamble ''blob '' 0)) 0x1A4 None)"
  by (simp_all add: hashSomething_regular [of exampleFS _ "\<lparr>Mode = 0x1ED, Size = 3\<rparr>"]
      hashSomething_regular [of exampleFS _ "\<lparr>Mode = 0x1A4, Size = 3\<rparr>"]
      hashSomething_regular [of exampleFS _ "\<lparr>Mode = 0x1A4, Size = 0\<rparr>"]
      hashSomething_symlink [of exampleFS _ "\<lparr>Mode = ModeSymlink OR 0x1FF, Size = 13\<rparr>"]
      hashSomething_dir [of exampleFS _ "\<lparr>Mode = ModeDir OR 0x1ED, Size = 4096\<rparr>"]
      example_Lstat example_Open example_Readlink example_ReadDir example_modes
      BufferReader_sel length_bytes_of)

lemma error_codes_differ:
  "ErrConcurrentIO \<noteq> ErrIO" "ErrUnsupportedFileType \<noteq> ErrIO"
  "ErrUnsupportedFileType \<noteq> ErrConcurrentIO"
  by (simp_all add: ErrConcurrentIO_def ErrIO_def ErrUnsupportedFileType_def)

section \<open>Computing digests\<close>

text \<open>The digests of the examples are computed by rewriting. Each operation on 32-bit
  numerals is reduced to the functions on binary numerals of the library, and the result
  is a numeral below \<open>2 ^ 32\<close> again.\<close>

lemma take_bit_32_word: "take_bit 32 (w :: 32 word) = w"
  by (rule take_bit_word_eq_self) simp

lemma add32:
  "(numeral a + numeral b :: 32 word) =
     (case take_bit_num 32 (a + b) of None \<Rightarrow> 0 | Some q \<Rightarrow> numeral q)"
proof -
  have "(numeral a + numeral b :: 32 word) = take_bit 32 (numeral (a + b) :: 32 word)"
    unfolding take_bit_32_word by (rule numeral_plus_numeral)
  also have "\<dots> = (case take_bit_num 32 (a + b) of None \<Rightarrow> 0 | Some q \<Rightarrow> numeral q)"
    by (rule take_bit_numeral_numeral)
  finally show ?thesis .
qed

lemma xor32:
  "(numeral a XOR numeral b :: 32 word) =
     (case xor_num a b of None \<Rightarrow> 0 | Some q \<Rightarrow> numeral q)"
proof -
  have "(numeral a XOR numeral b :: 32 word) = word_of_int (numeral a XOR numeral b)"
    by (simp only: of_int_xor_eq of_int_numeral)
  also have "\<dots> = (case xor_num a b of None \<Rightarrow> 0 | Some q \<Rightarrow> numeral q)"
    unfolding numeral_xor_num
    by (cases "xor_num a b") (simp_all only: option.case of_int_0 of_int_numeral)
  finally show ?thesis .
qed

lemma and32:
  "(numeral a AND numeral b :: 32 word) =
     (case and_num a b of None \<Rightarrow> 0 | Some q \<Rightarrow> numeral q)"
proof -
  have "(numeral a AND numeral b :: 32 word) = word_of_int (numeral a AND numeral b)"
    by (simp only: of_int_and_eq of_int_numeral)
  also have "\<dots> = (case and_num a b of None \<Rightarrow> 0 | Some q \<Rightarrow> numeral q)"
    unfolding numeral_and_num
    by (cases "and_num a b") (simp_all only: option.case of_int_0 of_int_numeral)
  finally show ?thesis .
qed

lemma or32: "(numeral a OR numeral b :: 32 word) = numeral (or_num a b)"
proof -
  have "(numeral a OR numeral b :: 32 word) = word_of_int (numeral a OR numeral b)"
    by (simp only: of_int_or_eq of_int_numeral)
  also have "\<dots> = numeral (or_num a b)"
    by (simp only: numeral_or_num of_int_numeral)
  finally show ?thesis .
qed

lemma not_and32:
  "(NOT (numeral a) AND numeral b :: 32 word) =
     (case and_not_num b a of None \<Rightarrow> 0 | Some q \<Rightarrow> numeral q)"
proof -
  have "(NOT (numeral a) AND numeral b :: 32 word) = word_of_int (NOT (numeral a) AND numeral b)"
    by (simp only: of_int_and_eq of_int_not_eq of_int_numeral)
  also have "\<dots> = (case and_not_num b a of None \<Rightarrow> 0 | Some q \<Rightarrow> numeral q)"
    unfolding int_numeral_not_and_num
    by (cases "and_not_num b a") (simp_all only: option.case of_int_0 of_int_numeral)
  finally show ?thesis .
qed

lemma word_of_nat_take_bit_32: "(word_of_nat (take_bit 32 x) :: 32 word) = word_of_nat x"
  by (simp add: word_of_nat_eq_iff)

lemma drop_bit_word_of_nat:
  "drop_bit k (word_of_nat x :: 32 word) = word_of_nat (drop_bit k (take_bit 32 x))"
proof -
  have "unat (drop_bit k (word_of_nat x :: 32 word)) = drop_bit k (take_bit 32 x)"
    by (simp add: unat_drop_bit_eq unsigned_of_nat)
  then have "word_of_nat (unat (drop_bit k (word_of_nat x :: 32 word))) =
             (word_of_nat (drop_bit k (take_bit 32 x)) :: 32 word)"
    by (rule arg_cong)
  then show ?thesis by simp
qed

lemma push_bit_word_of_nat:
  "push_bit k (word_of_nat x :: 32 word) = word_of_nat (take_bit 32 (push_bit k x))"
  by (simp only: word_of_nat_take_bit_32 push_bit_of_nat)

lemma drop32:
  "drop_bit (numeral l) (numeral n :: 32 word) =
     (case take_bit_num 32 n of
        None \<Rightarrow> 0
      | Some q \<Rightarrow> word_of_nat (drop_bit (numeral l) (numeral q :: nat)))"
proof -
  have "drop_bit (numeral l) (numeral n :: 32 word) =
        word_of_nat (drop_bit (numeral l) (take_bit 32 (numeral n :: nat)))"
    using drop_bit_word_of_nat [of "numeral l" "numeral n"] by (simp only: of_nat_numeral)
  also have "\<dots> = (case take_bit_num 32 n of
        None \<Rightarrow> 0
      | Some q \<Rightarrow> word_of_nat (drop_bit (numeral l) (numeral q :: nat)))"
    unfolding take_bit_numeral_numeral by (cases "take_bit_num 32 n") simp_all
  finally show ?thesis .
qed

lemma push32:
  "push_bit (numeral l) (numeral n :: 32 word) =
     word_of_nat (take_bit 32 (push_bit (numeral l) (numeral n :: nat)))"
  using push_bit_word_of_nat [of "numeral l" "numeral n"] by (simp only: of_nat_numeral)

lemma zero_one32:
  "0 XOR x = x" "x XOR 0 = x" "0 OR x = x" "x OR 0 = x" "0 AND x = 0" "x AND 0 = 0"
  "NOT 0 AND x = x" "drop_bit k 0 = 0" "push_bit k 0 = 0" "(1 :: 32 word) = numeral Num.One"
  "word_of_nat 0 = (0 :: 32 word)"
  for x :: "32 word"
  by simp_all

lemma shift_nat:
  "push_bit 0 n = n" "drop_bit 0 n = n" "drop_bit (numeral l) (numeral Num.One :: nat) = 0"
  for n :: nat
  by simp_all

text \<open>One step of the sixty-four: the window moves on by the next word of the
  schedule, and the state by one round. The rotations are written as their two shifts.\<close>

lemma rounds256_step:
  "rounds256 (k # ks) [a0, a1, a2, a3, a4, a5, a6, a7, a8, a9, a10, a11, a12, a13, a14, a15] [a, b, c, d, e, f, g, h] =
   rounds256 ks
     [a1, a2, a3, a4, a5, a6, a7, a8, a9, a10, a11, a12, a13, a14, a15,
      ((drop_bit 17 a14 OR push_bit 15 a14) XOR (drop_bit 19 a14 OR push_bit 13 a14) XOR drop_bit 10 a14) + a9
        + ((drop_bit 7 a1 OR push_bit 25 a1) XOR (drop_bit 18 a1 OR push_bit 14 a1) XOR drop_bit 3 a1) + a0]
     (let t1 = h + ((drop_bit 6 e OR push_bit 26 e) XOR (drop_bit 11 e OR push_bit 21 e)
                      XOR (drop_bit 25 e OR push_bit 7 e))
                 + ((e AND f) XOR (NOT e AND g)) + k + a0;
          t2 = ((drop_bit 2 a OR push_bit 30 a) XOR (drop_bit 13 a OR push_bit 19 a)
                  XOR (drop_bit 22 a OR push_bit 10 a))
                 + ((a AND b) XOR (a AND c) XOR (b AND c))
      in [t1 + t2, a, b, c, d + t1, e, f, g])"
  by (simp add: sched1_def RotateRight32_def Let_def)

lemmas eval32 = rounds256_step rounds256.simps(1) Let_def K256_def
  add32 xor32 and32 or32 not_and32 drop32 push32 zero_one32 shift_nat add_0_left add_0_right
  add_num_simps xor_num.simps and_num.simps or_num.simps and_not_num.simps take_bit_num_simps
  pred_numeral_simps BitM.simps option.case option.map
  push_bit_numeral [where ?'a = nat] drop_bit_numeral_bit0 [where ?'a = nat]
  drop_bit_numeral_bit1 [where ?'a = nat] take_bit_numeral_numeral [where ?'a = nat]
  of_nat_numeral

lemma replicate_numeral_pred: "replicate (numeral k) x = x # replicate (pred_numeral k) x"
  by (simp add: numeral_eq_Suc)

lemma blocks256_done: "blocks256 hs [] = hs"
  by (simp add: blocks256.simps)

lemma blocks256_chunk: "length b = 64 \<Longrightarrow> blocks256 hs (b @ p) = blocks256 (block256 hs b) p"
  by (subst blocks256.simps) simp

lemma blocks256_last: "length b = 64 \<Longrightarrow> blocks256 hs b = block256 hs b"
  using blocks256_chunk [of b hs "[]"] by (simp add: blocks256_done)

text \<open>The blob of the file \<open>a file\<close> and a line feed, with its length 7.\<close>

lemma sha256_blob7:
  "sha256
     [98, 108, 111, 98, 32, 55, 0, 97, 32, 102, 105, 108, 101, 10] =
     [41, 9, 72, 154, 220, 176, 149, 170, 121, 90, 154, 126, 109, 146, 219, 115, 93, 10,
      12, 237, 7, 130, 196, 52, 150, 103, 91, 219, 123, 238, 195, 206]"
proof -
  let ?m = "[98, 108, 111, 98, 32, 55, 0, 97, 32, 102, 105, 108, 101, 10] :: byte list"
  let ?b1 = "[98, 108, 111, 98, 32, 55, 0, 97, 32, 102, 105, 108, 101, 10, 128, 0, 0, 0, 0,
              0, 0, 0, 0, 0, 0, 0, 0, 0, 0, 0, 0, 0, 0, 0, 0, 0, 0, 0, 0, 0, 0, 0, 0, 0, 0,
              0, 0, 0, 0, 0, 0, 0, 0, 0, 0, 0, 0, 0, 0, 0, 0, 0, 0, 112] :: byte list"
  let ?s1 = "[688474266, 3702560170, 2035980926, 1838340979, 1560939757, 126010420,
              2523356123, 2079245262] :: uint32 list"
  have pad: "pad256 ?m = ?b1"
    by (simp add: pad256_def be64_def replicate_numeral_pred)
  have w1: "be32 ?b1 =
      [1651273570, 540475489, 543582572, 1695186944, 0, 0, 0, 0, 0, 0, 0, 0, 0, 0, 0, 112]"
    by simp
  have r1: "rounds256 K256
      [1651273570, 540475489, 543582572, 1695186944, 0, 0, 0, 0, 0, 0, 0, 0, 0, 0, 0, 112]
      [1779033703, 3144134277, 1013904242, 2773480762, 1359893119, 2600822924, 528734635,
       1541459225] =
      [3204407859, 558425893, 1022076684, 3359827513, 201046638, 1820154792, 1994621488,
       537786037]"
    by (simp only: eval32)
  have h1: "block256 init256 ?b1 = ?s1"
    unfolding block256_def w1 init256_def r1 by simp
  have c1: "blocks256 init256 ?b1 = block256 init256 ?b1"
    by (rule blocks256_last) simp
  have "blocks256 init256 (pad256 ?m) = ?s1"
    by (simp only: pad c1 h1)
  then show ?thesis
    by (simp add: sha256_def bytes32_def)
qed

text \<open>The same content under the length 8.\<close>

lemma sha256_blob8:
  "sha256
     [98, 108, 111, 98, 32, 56, 0, 97, 32, 102, 105, 108, 101, 10] =
     [220, 32, 222, 78, 190, 71, 153, 61, 206, 161, 252, 233, 31, 134, 209, 81, 90, 9, 36,
      18, 150, 197, 18, 31, 102, 199, 65, 193, 142, 248, 34, 125]"
proof -
  let ?m = "[98, 108, 111, 98, 32, 56, 0, 97, 32, 102, 105, 108, 101, 10] :: byte list"
  let ?b1 = "[98, 108, 111, 98, 32, 56, 0, 97, 32, 102, 105, 108, 101, 10, 128, 0, 0, 0, 0,
              0, 0, 0, 0, 0, 0, 0, 0, 0, 0, 0, 0, 0, 0, 0, 0, 0, 0, 0, 0, 0, 0, 0, 0, 0, 0,
              0, 0, 0, 0, 0, 0, 0, 0, 0, 0, 0, 0, 0, 0, 0, 0, 0, 0, 112] :: byte list"
  let ?s1 = "[3693141582, 3192363325, 3466722537, 528929105, 1510548498, 2529497631,
              1724334529, 2398626429] :: uint32 list"
  have pad: "pad256 ?m = ?b1"
    by (simp add: pad256_def be64_def replicate_numeral_pred)
  have w1: "be32 ?b1 =
      [1651273570, 540541025, 543582572, 1695186944, 0, 0, 0, 0, 0, 0, 0, 0, 0, 0, 0, 112]"
    by simp
  have r1: "rounds256 K256
      [1651273570, 540541025, 543582572, 1695186944, 0, 0, 0, 0, 0, 0, 0, 0, 0, 0, 0, 112]
      [1779033703, 3144134277, 1013904242, 2773480762, 1359893119, 2600822924, 528734635,
       1541459225] =
      [1914107879, 48229048, 2452818295, 2050415639, 150655379, 4223642003, 1195599894,
       857167204]"
    by (simp only: eval32)
  have h1: "block256 init256 ?b1 = ?s1"
    unfolding block256_def w1 init256_def r1 by simp
  have c1: "blocks256 init256 ?b1 = block256 init256 ?b1"
    by (rule blocks256_last) simp
  have "blocks256 init256 (pad256 ?m) = ?s1"
    by (simp only: pad c1 h1)
  then show ?thesis
    by (simp add: sha256_def bytes32_def)
qed

text \<open>The blob of the link target \<open>target string\<close>, with its length 13.\<close>

lemma sha256_blob13:
  "sha256
     [98, 108, 111, 98, 32, 49, 51, 0, 116, 97, 114, 103, 101, 116, 32, 115, 116, 114, 105,
      110, 103] =
     [69, 160, 24, 72, 145, 46, 144, 14, 245, 130, 162, 62, 247, 99, 199, 125, 219, 45,
      149, 91, 234, 119, 86, 7, 47, 176, 86, 244, 53, 52, 252, 168]"
proof -
  let ?m = "[98, 108, 111, 98, 32, 49, 51, 0, 116, 97, 114, 103, 101, 116, 32, 115, 116,
             114, 105, 110, 103] :: byte list"
  let ?b1 = "[98, 108, 111, 98, 32, 49, 51, 0, 116, 97, 114, 103, 101, 116, 32, 115, 116,
              114, 105, 110, 103, 128, 0, 0, 0, 0, 0, 0, 0, 0, 0, 0, 0, 0, 0, 0, 0, 0, 0,
              0, 0, 0, 0, 0, 0, 0, 0, 0, 0, 0, 0, 0, 0, 0, 0, 0, 0, 0, 0, 0, 0, 0, 0, 168] :: byte list"
  let ?s1 = "[1168119880, 2435747854, 4118979134, 4150511485, 3677197659, 3933689351,
              800085748, 892665000] :: uint32 list"
  have pad: "pad256 ?m = ?b1"
    by (simp add: pad256_def be64_def replicate_numeral_pred)
  have w1: "be32 ?b1 =
      [1651273570, 540095232, 1952543335, 1702109299, 1953655150, 1736441856, 0, 0, 0, 0,
       0, 0, 0, 0, 0, 168]"
    by simp
  have r1: "rounds256 K256
      [1651273570, 540095232, 1952543335, 1702109299, 1953655150, 1736441856, 0, 0, 0, 0,
       0, 0, 0, 0, 0, 168]
      [1779033703, 3144134277, 1013904242, 2773480762, 1359893119, 2600822924, 528734635,
       1541459225] =
      [3684053473, 3586580873, 3105074892, 1377030723, 2317304540, 1332866427, 271351113,
       3646173071]"
    by (simp only: eval32)
  have h1: "block256 init256 ?b1 = ?s1"
    unfolding block256_def w1 init256_def r1 by simp
  have c1: "blocks256 init256 ?b1 = block256 init256 ?b1"
    by (rule blocks256_last) simp
  have "blocks256 init256 (pad256 ?m) = ?s1"
    by (simp only: pad c1 h1)
  then show ?thesis
    by (simp add: sha256_def bytes32_def)
qed

text \<open>The same target under the length 14.\<close>

lemma sha256_blob14:
  "sha256
     [98, 108, 111, 98, 32, 49, 52, 0, 116, 97, 114, 103, 101, 116, 32, 115, 116, 114, 105,
      110, 103] =
     [57, 236, 59, 106, 173, 91, 20, 174, 211, 73, 83, 134, 114, 45, 64, 106, 104, 158,
      186, 199, 207, 217, 82, 224, 171, 118, 203, 85, 152, 118, 20, 45]"
proof -
  let ?m = "[98, 108, 111, 98, 32, 49, 52, 0, 116, 97, 114, 103, 101, 116, 32, 115, 116,
             114, 105, 110, 103] :: byte list"
  let ?b1 = "[98, 108, 111, 98, 32, 49, 52, 0, 116, 97, 114, 103, 101, 116, 32, 115, 116,
              114, 105, 110, 103, 128, 0, 0, 0, 0, 0, 0, 0, 0, 0, 0, 0, 0, 0, 0, 0, 0, 0,
              0, 0, 0, 0, 0, 0, 0, 0, 0, 0, 0, 0, 0, 0, 0, 0, 0, 0, 0, 0, 0, 0, 0, 0, 168] :: byte list"
  let ?s1 = "[971783018, 2908427438, 3544798086, 1915568234, 1755232967, 3487126240,
              2876689237, 2557875245] :: uint32 list"
  have pad: "pad256 ?m = ?b1"
    by (simp add: pad256_def be64_def replicate_numeral_pred)
  have w1: "be32 ?b1 =
      [1651273570, 540095488, 1952543335, 1702109299, 1953655150, 1736441856, 0, 0, 0, 0,
       0, 0, 0, 0, 0, 168]"
    by simp
  have r1: "rounds256 K256
      [1651273570, 540095488, 1952543335, 1702109299, 1953655150, 1736441856, 0, 0, 0, 0,
       0, 0, 0, 0, 0, 168]
      [1779033703, 3144134277, 1013904242, 2773480762, 1359893119, 2600822924, 528734635,
       1541459225] =
      [3487716611, 4059260457, 2530893844, 3437054768, 395339848, 886303316, 2347954602,
       1016416020]"
    by (simp only: eval32)
  have h1: "block256 init256 ?b1 = ?s1"
    unfolding block256_def w1 init256_def r1 by simp
  have c1: "blocks256 init256 ?b1 = block256 init256 ?b1"
    by (rule blocks256_last) simp
  have "blocks256 init256 (pad256 ?m) = ?s1"
    by (simp only: pad c1 h1)
  then show ?thesis
    by (simp add: sha256_def bytes32_def)
qed

text \<open>The blob of the file \<open>abc\<close>.\<close>

lemma sha256_blob3:
  "sha256
     [98, 108, 111, 98, 32, 51, 0, 97, 98, 99] =
     [193, 207, 110, 70, 80, 119, 147, 14, 136, 220, 81, 54, 100, 29, 64, 47, 114, 162, 41,
      221, 217, 150, 246, 39, 214, 14, 150, 57, 234, 186, 53, 166]"
proof -
  let ?m = "[98, 108, 111, 98, 32, 51, 0, 97, 98, 99] :: byte list"
  let ?b1 = "[98, 108, 111, 98, 32, 51, 0, 97, 98, 99, 128, 0, 0, 0, 0, 0, 0, 0, 0, 0, 0,
              0, 0, 0, 0, 0, 0, 0, 0, 0, 0, 0, 0, 0, 0, 0, 0, 0, 0, 0, 0, 0, 0, 0, 0, 0, 0,
              0, 0, 0, 0, 0, 0, 0, 0, 0, 0, 0, 0, 0, 0, 0, 0, 80] :: byte list"
  let ?s1 = "[3251596870, 1350013710, 2296140086, 1679638575, 1923230173, 3650549287,
              3591280185, 3938071974] :: uint32 list"
  have pad: "pad256 ?m = ?b1"
    by (simp add: pad256_def be64_def replicate_numeral_pred)
  have w1: "be32 ?b1 =
      [1651273570, 540213345, 1650688000, 0, 0, 0, 0, 0, 0, 0, 0, 0, 0, 0, 0, 80]"
    by simp
  have r1: "rounds256 K256
      [1651273570, 540213345, 1650688000, 0, 0, 0, 0, 0, 0, 0, 0, 0, 0, 0, 0, 80]
      [1779033703, 3144134277, 1013904242, 2773480762, 1359893119, 2600822924, 528734635,
       1541459225] =
      [1472563167, 2500846729, 1282235844, 3201125109, 563337054, 1049726363, 3062545550,
       2396612749]"
    by (simp only: eval32)
  have h1: "block256 init256 ?b1 = ?s1"
    unfolding block256_def w1 init256_def r1 by simp
  have c1: "blocks256 init256 ?b1 = block256 init256 ?b1"
    by (rule blocks256_last) simp
  have "blocks256 init256 (pad256 ?m) = ?s1"
    by (simp only: pad c1 h1)
  then show ?thesis
    by (simp add: sha256_def bytes32_def)
qed

text \<open>The tree of an empty directory.\<close>

lemma sha256_tree0:
  "sha256
     [116, 114, 101, 101, 32, 48, 0] =
     [110, 241, 155, 65, 34, 92, 83, 105, 241, 193, 4, 212, 93, 141, 133, 239, 169, 176,
      87, 181, 59, 20, 180, 185, 185, 57, 221, 116, 222, 204, 83, 33]"
proof -
  let ?m = "[116, 114, 101, 101, 32, 48, 0] :: byte list"
  let ?b1 = "[116, 114, 101, 101, 32, 48, 0, 128, 0, 0, 0, 0, 0, 0, 0, 0, 0, 0, 0, 0, 0, 0,
              0, 0, 0, 0, 0, 0, 0, 0, 0, 0, 0, 0, 0, 0, 0, 0, 0, 0, 0, 0, 0, 0, 0, 0, 0, 0,
              0, 0, 0, 0, 0, 0, 0, 0, 0, 0, 0, 0, 0, 0, 0, 56] :: byte list"
  let ?s1 = "[1861327681, 576476009, 4055958740, 1569555951, 2846906293, 991212729,
              3107577204, 3737932577] :: uint32 list"
  have pad: "pad256 ?m = ?b1"
    by (simp add: pad256_def be64_def replicate_numeral_pred)
  have w1: "be32 ?b1 =
      [1953654117, 540016768, 0, 0, 0, 0, 0, 0, 0, 0, 0, 0, 0, 0, 0, 56]"
    by simp
  have r1: "rounds256 K256
      [1953654117, 540016768, 0, 0, 0, 0, 0, 0, 0, 0, 0, 0, 0, 0, 0, 56]
      [1779033703, 3144134277, 1013904242, 2773480762, 1359893119, 2600822924, 528734635,
       1541459225] =
      [82293978, 1727309028, 3042054498, 3091042485, 1487013174, 2685357101, 2578842569,
       2196473352]"
    by (simp only: eval32)
  have h1: "block256 init256 ?b1 = ?s1"
    unfolding block256_def w1 init256_def r1 by simp
  have c1: "blocks256 init256 ?b1 = block256 init256 ?b1"
    by (rule blocks256_last) simp
  have "blocks256 init256 (pad256 ?m) = ?s1"
    by (simp only: pad c1 h1)
  then show ?thesis
    by (simp add: sha256_def bytes32_def)
qed

text \<open>The tree that lists \<open>name\<close> before \<open>sub\<close>.\<close>

lemma sha256_tree_name_sub:
  "sha256
     [116, 114, 101, 101, 32, 56, 54, 0, 49, 48, 48, 54, 52, 52, 32, 110, 97, 109, 101, 0,
      193, 207, 110, 70, 80, 119, 147, 14, 136, 220, 81, 54, 100, 29, 64, 47, 114, 162, 41,
      221, 217, 150, 246, 39, 214, 14, 150, 57, 234, 186, 53, 166, 52, 48, 48, 48, 48, 32,
      115, 117, 98, 0, 110, 241, 155, 65, 34, 92, 83, 105, 241, 193, 4, 212, 93, 141, 133,
      239, 169, 176, 87, 181, 59, 20, 180, 185, 185, 57, 221, 116, 222, 204, 83, 33] =
     [42, 116, 9, 75, 148, 251, 24, 104, 96, 186, 184, 106, 226, 177, 241, 111, 237, 182,
      62, 21, 91, 38, 217, 226, 31, 102, 76, 162, 10, 158, 246, 36]"
proof -
  let ?m = "[116, 114, 101, 101, 32, 56, 54, 0, 49, 48, 48, 54, 52, 52, 32, 110, 97, 109,
             101, 0, 193, 207, 110, 70, 80, 119, 147, 14, 136, 220, 81, 54, 100, 29, 64,
             47, 114, 162, 41, 221, 217, 150, 246, 39, 214, 14, 150, 57, 234, 186, 53, 166,
             52, 48, 48, 48, 48, 32, 115, 117, 98, 0, 110, 241, 155, 65, 34, 92, 83, 105,
             241, 193, 4, 212, 93, 141, 133, 239, 169, 176, 87, 181, 59, 20, 180, 185, 185,
             57, 221, 116, 222, 204, 83, 33] :: byte list"
  let ?b1 = "[116, 114, 101, 101, 32, 56, 54, 0, 49, 48, 48, 54, 52, 52, 32, 110, 97, 109,
              101, 0, 193, 207, 110, 70, 80, 119, 147, 14, 136, 220, 81, 54, 100, 29, 64,
              47, 114, 162, 41, 221, 217, 150, 246, 39, 214, 14, 150, 57, 234, 186, 53,
              166, 52, 48, 48, 48, 48, 32, 115, 117, 98, 0, 110, 241] :: byte list"
  let ?b2 = "[155, 65, 34, 92, 83, 105, 241, 193, 4, 212, 93, 141, 133, 239, 169, 176, 87,
              181, 59, 20, 180, 185, 185, 57, 221, 116, 222, 204, 83, 33, 128, 0, 0, 0, 0,
              0, 0, 0, 0, 0, 0, 0, 0, 0, 0, 0, 0, 0, 0, 0, 0, 0, 0, 0, 0, 0, 0, 0, 0, 0, 0,
              0, 2, 240] :: byte list"
  let ?s1 = "[2118966085, 4080064703, 3915578457, 186719141, 3712729578, 1667796051,
              1342678124, 3560350193] :: uint32 list"
  let ?s2 = "[712247627, 2499483752, 1622849642, 3803312495, 3988143637, 1529272802,
              526797986, 178189860] :: uint32 list"
  have pad: "pad256 ?m = ?b1 @ ?b2"
    by (simp add: pad256_def be64_def replicate_numeral_pred)
  have w1: "be32 ?b1 =
      [1953654117, 540554752, 825241654, 875831406, 1634559232, 3251596870, 1350013710,
       2296140086, 1679638575, 1923230173, 3650549287, 3591280185, 3938071974, 875573296,
       807433077, 1644195569]"
    by simp
  have r1: "rounds256 K256
      [1953654117, 540554752, 825241654, 875831406, 1634559232, 3251596870, 1350013710,
       2296140086, 1679638575, 1923230173, 3650549287, 3591280185, 3938071974, 875573296,
       807433077, 1644195569]
      [1779033703, 3144134277, 1013904242, 2773480762, 1359893119, 2600822924, 528734635,
       1541459225] =
      [339932382, 935930426, 2901674215, 1708205675, 2352836459, 3361940423, 813943489,
       2018890968]"
    by (simp only: eval32)
  have h1: "block256 init256 ?b1 = ?s1"
    unfolding block256_def w1 init256_def r1 by simp
  have w2: "be32 ?b2 =
      [2604737116, 1399452097, 81026445, 2247076272, 1471494932, 3032070457, 3715423948,
       1394704384, 0, 0, 0, 0, 0, 0, 0, 752]"
    by simp
  have r2: "rounds256 K256
      [2604737116, 1399452097, 81026445, 2247076272, 1471494932, 3032070457, 3715423948,
       1394704384, 0, 0, 0, 0, 0, 0, 0, 752]
      [2118966085, 4080064703, 3915578457, 186719141, 3712729578, 1667796051, 1342678124,
       3560350193] =
      [2888248838, 2714386345, 2002238481, 3616593354, 275414059, 4156444047, 3479087158,
       912806963]"
    by (simp only: eval32)
  have h2: "block256 ?s1 ?b2 = ?s2"
    unfolding block256_def w2 r2 by simp
  have c1: "blocks256 init256 (?b1 @ ?b2) = blocks256 (block256 init256 ?b1) ?b2"
    by (rule blocks256_chunk) simp
  have c2: "blocks256 ?s1 ?b2 = block256 ?s1 ?b2"
    by (rule blocks256_last) simp
  have "blocks256 init256 (pad256 ?m) = ?s2"
    by (simp only: pad c1 h1 c2 h2)
  then show ?thesis
    by (simp add: sha256_def bytes32_def)
qed

section \<open>The claims\<close>

text \<open>C7: an empty regular file is hashed as exactly the seven bytes \<open>blob 0\<close> and a zero
  byte, with no content after them, and an empty directory as \<open>tree 0\<close> and a zero byte;
  both calls return the digest without error, at any depth allowed to the recursion.\<close>

theorem C7_empty_file_and_empty_directory:
  "(Lstat fsys pth = Inr fi \<and> Mode fi AND ModeType = 0 \<and> Size fi = 0 \<and>
    Open fsys pth = Inr f \<and> content f = [] \<and> failure f = None
      \<longrightarrow> hashSomething (Suc depth) join fsys pth =
            Some (Return (sha256 (bytes_of ''blob 0'' @ [0x00])) (Mode fi) None))
   \<and> (Lstat fsys pth = Inr fi \<and> Mode fi AND ModeType = ModeDir \<and> ReadDir fsys pth = Inr []
      \<longrightarrow> hashSomething (Suc depth) join fsys pth =
            Some (Return (sha256 (bytes_of ''tree 0'' @ [0x00])) (Mode fi) None))
   \<and> length (bytes_of ''blob 0'' @ [0x00]) = 7"
proof (intro conjI impI)
  assume a: "Lstat fsys pth = Inr fi \<and> Mode fi AND ModeType = 0 \<and> Size fi = 0 \<and>
    Open fsys pth = Inr f \<and> content f = [] \<and> failure f = None"
  then have "hashSomething (Suc depth) join fsys pth =
      Some (Return (sha256 (preamble ''blob '' 0 @ [])) (Mode fi) None)"
    by (simp add: hashSomething_regular)
  then show "hashSomething (Suc depth) join fsys pth =
      Some (Return (sha256 (bytes_of ''blob 0'' @ [0x00])) (Mode fi) None)"
    by (simp add: preamble_def Itoa_examples bytes_of_def)
next
  assume a: "Lstat fsys pth = Inr fi \<and> Mode fi AND ModeType = ModeDir \<and> ReadDir fsys pth = Inr []"
  then have "hashSomething (Suc depth) join fsys pth =
      Some (Return (sha256 (preamble ''tree '' 0 @ [])) (Mode fi) None)"
    by (simp add: hashSomething_dir)
  then show "hashSomething (Suc depth) join fsys pth =
      Some (Return (sha256 (bytes_of ''tree 0'' @ [0x00])) (Mode fi) None)"
    by (simp add: preamble_def Itoa_examples bytes_of_def)
next
  show "length (bytes_of ''blob 0'' @ [0x00]) = 7"
    by (simp add: length_bytes_of)
qed

theorem C7_empty_file_and_empty_directory_witness:
  "Lstat exampleFS ''empty'' = Inr \<lparr>Mode = 0x1A4, Size = 0\<rparr> \<and>
   Open exampleFS ''empty'' = Inr (BufferReader []) \<and>
   hashSomething (Suc 0) joinPath exampleFS ''empty'' =
     Some (Return (sha256 (bytes_of ''blob 0'' @ [0x00])) 0x1A4 None) \<and>
   Lstat exampleFS ''emptydir'' = Inr \<lparr>Mode = ModeDir OR 0x1ED, Size = 4096\<rparr> \<and>
   ReadDir exampleFS ''emptydir'' = Inr [] \<and>
   hashSomething (Suc 0) joinPath exampleFS ''emptydir'' =
     Some (Return (sha256 (bytes_of ''tree 0'' @ [0x00])) (ModeDir OR 0x1ED) None)"
  using C7_empty_file_and_empty_directory
          [of exampleFS "''empty''" "\<lparr>Mode = 0x1A4, Size = 0\<rparr>" "BufferReader []" 0 joinPath]
        C7_empty_file_and_empty_directory
          [of exampleFS "''emptydir''" "\<lparr>Mode = ModeDir OR 0x1ED, Size = 4096\<rparr>" _ 0 joinPath]
  by (simp add: example_Lstat example_Open example_ReadDir example_modes BufferReader_sel)

text \<open>C8: when link-aware stat reported a symbolic link and reading the link target then
  fails, the call returns an error of the concurrent-I/O kind, which is not the I/O kind;
  the error carries the path and the cause.\<close>

theorem C8_readlink_failure_is_concurrent_io:
  assumes "Lstat fsys pth = Inr fi" and "Mode fi AND ModeType = ModeSymlink"
    and "Readlink fsys pth = Inl err"
  shows "hashSomething (Suc depth) join fsys pth =
           Some (Return zeroHash (Mode fi) (Some (ReadlinkFailure pth err)))
         \<and> code (ReadlinkFailure pth err) = ErrConcurrentIO
         \<and> code (ReadlinkFailure pth err) \<noteq> ErrIO"
  using assms by (simp add: hashSomething_symlink error_codes_differ)

theorem C8_readlink_failure_is_concurrent_io_witness:
  "Lstat exampleFS ''gone'' = Inr \<lparr>Mode = ModeSymlink OR 0x1FF, Size = 13\<rparr> \<and>
   Readlink exampleFS ''gone'' = Inl ''no such file or directory'' \<and>
   hashSomething (Suc 0) joinPath exampleFS ''gone'' =
     Some (Return zeroHash (ModeSymlink OR 0x1FF)
        (Some (ReadlinkFailure ''gone'' ''no such file or directory'')))"
  using C8_readlink_failure_is_concurrent_io
          [of exampleFS "''gone''" "\<lparr>Mode = ModeSymlink OR 0x1FF, Size = 13\<rparr>"
              "''no such file or directory''" 0 joinPath]
  by (simp add: example_Lstat example_Readlink example_modes)

text \<open>C2: for a regular file whose content was read to its end, the observed content
  length is the number of bytes that went through the hasher minus the length of the
  preamble. When it differs from the claimed size, the call returns an error of the
  concurrent-I/O kind that carries the claimed size, the observed size and the path, and
  at no depth does the call return without error.\<close>

theorem C2_size_mismatch_is_reported:
  assumes "Lstat fsys pth = Inr fi" and "Mode fi AND ModeType = 0"
    and "Open fsys pth = Inr f" and "failure f = None"
    and "int (length (content f)) \<noteq> Size fi"
  shows "hashSomething (Suc depth) join fsys pth =
           Some (Return (sha256 (preamble ''blob '' (Size fi) @ content f)) (Mode fi)
                   (Some (SizeMismatch (Size fi) (int (length (content f))) pth)))
         \<and> code (SizeMismatch (Size fi) (int (length (content f))) pth) = ErrConcurrentIO
         \<and> int (length (content f)) =
             fst (snd (hashStream (MultiReader [BufferReader (preamble ''blob '' (Size fi)), f])))
               - int (length (preamble ''blob '' (Size fi)))
         \<and> (\<forall>d. \<not> succeeded (hashSomething d join fsys pth))"
proof -
  have r: "hashSomething (Suc depth) join fsys pth =
           Some (Return (sha256 (preamble ''blob '' (Size fi) @ content f)) (Mode fi)
                   (Some (SizeMismatch (Size fi) (int (length (content f))) pth)))" for depth
    using assms by (simp add: hashSomething_regular)
  have "\<not> succeeded (hashSomething d join fsys pth)" for d
  proof (cases d)
    case 0
    then show ?thesis by (simp add: succeeded_def)
  next
    case (Suc d')
    then show ?thesis by (simp add: r succeeded_def)
  qed
  moreover have "int (length (content f)) =
             fst (snd (hashStream (MultiReader [BufferReader (preamble ''blob '' (Size fi)), f])))
               - int (length (preamble ''blob '' (Size fi)))"
    using assms(4) by (simp add: hashStream_preamble del: MultiReader.simps)
  ultimately show ?thesis using r by simp
qed

theorem C2_size_mismatch_is_reported_witness:
  "Lstat exampleFS ''grown'' = Inr \<lparr>Mode = 0x1A4, Size = 8\<rparr> \<and>
   Open exampleFS ''grown'' = Inr (BufferReader (bytes_of ''a file'' @ [0x0A])) \<and>
   hashSomething (Suc 0) joinPath exampleFS ''grown'' =
     Some (Return (sha256 (preamble ''blob '' 8 @ bytes_of ''a file'' @ [0x0A])) 0x1A4
        (Some (SizeMismatch 8 7 ''grown'')))"
  using C2_size_mismatch_is_reported
          [of exampleFS "''grown''" "\<lparr>Mode = 0x1A4, Size = 8\<rparr>"
              "BufferReader (bytes_of ''a file'' @ [0x0A])" 0 joinPath]
  by (simp add: example_Lstat example_Open example_modes BufferReader_sel length_bytes_of)

text \<open>C9 (as amended): \<open>hashStream\<close> over a sequence of buffers returns the digest of their
  concatenation and the number of bytes of all of them. When a source fails, after the
  sources before it were read to their ends, it returns an error of the I/O kind together
  with the zero hash and the number of bytes copied before the failure: no digest of what
  was read is returned, the count of what was read is.\<close>

theorem C9_hashStream:
  "hashStream (MultiReader (map BufferReader bufs)) =
     (sha256 (concat bufs), int (length (concat bufs)), None)
   \<and> ((\<forall>r \<in> set good. failure r = None) \<and> failure bad = Some err
        \<longrightarrow> hashStream (MultiReader (good @ bad # rest)) =
              (zeroHash, int (length (concat (map content good) @ content bad)),
               Some (IOFailure err))
            \<and> code (IOFailure err) = ErrIO)"
proof (intro conjI impI)
  have "MultiReader (map BufferReader bufs) =
        \<lparr>content = concat (map content (map BufferReader bufs)), failure = None\<rparr>"
    by (rule MultiReader_concat) (simp add: BufferReader_sel)
  moreover have "map content (map BufferReader bufs) = bufs"
    by (induction bufs) (simp_all add: BufferReader_sel)
  ultimately show "hashStream (MultiReader (map BufferReader bufs)) =
     (sha256 (concat bufs), int (length (concat bufs)), None)"
    by (simp add: hashStream_def)
next
  assume "(\<forall>r \<in> set good. failure r = None) \<and> failure bad = Some err"
  then have "content (MultiReader (good @ bad # rest)) = concat (map content good) @ content bad
      \<and> failure (MultiReader (good @ bad # rest)) = Some err"
    by (intro MultiReader_failing) simp_all
  then show "hashStream (MultiReader (good @ bad # rest)) =
              (zeroHash, int (length (concat (map content good) @ content bad)),
               Some (IOFailure err))"
    by (simp add: hashStream_def)
next
  show "code (IOFailure err) = ErrIO" by simp
qed

theorem C9_hashStream_witness:
  "failure (BufferReader [0x62, 0x6C]) = None \<and>
   failure \<lparr>content = [0x6F, 0x62], failure = Some ''input/output error''\<rparr> =
     Some ''input/output error'' \<and>
   hashStream (MultiReader [BufferReader [0x62, 0x6C],
       \<lparr>content = [0x6F, 0x62], failure = Some ''input/output error''\<rparr>,
       BufferReader [0x20]]) =
     (zeroHash, 4, Some (IOFailure ''input/output error''))"
  using C9_hashStream
          [of _ "[BufferReader [0x62, 0x6C]]"
              "\<lparr>content = [0x6F, 0x62], failure = Some ''input/output error''\<rparr>"
              "''input/output error''" "[BufferReader [0x20]]"]
  by (simp add: BufferReader_sel)

text \<open>C9 as it is written fails in its last clause: what was read before the failure can
  be observed in the result. The same failing source after a buffer of two bytes and after
  a buffer of one byte gives the counts 4 and 3, both with the zero hash and the error.\<close>

theorem C9_hashStream_counterexample:
  "hashStream (MultiReader [BufferReader [0x62, 0x6C],
       \<lparr>content = [0x6F, 0x62], failure = Some ''input/output error''\<rparr>]) =
     (zeroHash, 4, Some (IOFailure ''input/output error'')) \<and>
   hashStream (MultiReader [BufferReader [0x62],
       \<lparr>content = [0x6F, 0x62], failure = Some ''input/output error''\<rparr>]) =
     (zeroHash, 3, Some (IOFailure ''input/output error'')) \<and>
   hashStream (MultiReader [BufferReader [0x62, 0x6C],
       \<lparr>content = [0x6F, 0x62], failure = Some ''input/output error''\<rparr>]) \<noteq>
   hashStream (MultiReader [BufferReader [0x62],
       \<lparr>content = [0x6F, 0x62], failure = Some ''input/output error''\<rparr>])"
  by (simp add: hashStream_def BufferReader_def)

text \<open>C5 (as amended): the file whose content is \<open>a file\<close> and a line feed has 7 bytes,
  and when the metadata agrees with the content the call returns, without error, the
  digest of \<open>blob 7\<close>, a zero byte and the content.\<close>

theorem C5_blob_of_a_file:
  assumes "Lstat fsys pth = Inr fi" and "Mode fi AND ModeType = 0"
    and "Open fsys pth = Inr f" and "failure f = None"
    and "content f = bytes_of ''a file'' @ [0x0A]"
    and "Size fi = int (length (content f))"
  shows "hashSomething (Suc depth) join fsys pth =
           Some (Return (sha256 (bytes_of ''blob 7'' @ [0x00] @ bytes_of ''a file'' @ [0x0A]))
                   (Mode fi) None)
         \<and> length (content f) = 7"
proof -
  have len: "length (content f) = 7"
    by (simp add: assms(5) length_bytes_of)
  then have size: "Size fi = 7"
    using assms(6) by simp
  have "preamble ''blob '' 7 = bytes_of ''blob 7'' @ [0x00]"
    by (simp add: preamble_def Itoa_examples bytes_of_def)
  then show ?thesis
    using assms(1-5) len size by (simp add: hashSomething_regular)
qed

theorem C5_blob_of_a_file_witness:
  "Lstat exampleFS ''a_file'' = Inr \<lparr>Mode = 0x1A4, Size = 7\<rparr> \<and>
   Open exampleFS ''a_file'' = Inr (BufferReader (bytes_of ''a file'' @ [0x0A])) \<and>
   hashSomething (Suc 0) joinPath exampleFS ''a_file'' =
     Some (Return (sha256 (bytes_of ''blob 7'' @ [0x00] @ bytes_of ''a file'' @ [0x0A])) 0x1A4 None)"
  using C5_blob_of_a_file
          [of exampleFS "''a_file''" "\<lparr>Mode = 0x1A4, Size = 7\<rparr>"
              "BufferReader (bytes_of ''a file'' @ [0x0A])" 0 joinPath]
  by (simp add: example_Lstat example_Open example_modes BufferReader_sel length_bytes_of)

text \<open>C5 as it is written fails: the file of 7 bytes is not hashed under the length 8.
  Its digest, and the digest of \<open>blob 8\<close>, a zero byte and the same content, are computed
  here and differ. A file that claims 8 bytes and delivers these 7 gets the second digest
  together with the size-mismatch error.\<close>

theorem C5_blob_of_a_file_counterexample:
  "Lstat exampleFS ''a_file'' = Inr \<lparr>Mode = 0x1A4, Size = 7\<rparr> \<and>
   Open exampleFS ''a_file'' = Inr (BufferReader (bytes_of ''a file'' @ [0x0A])) \<and>
   hashSomething (Suc 0) joinPath exampleFS ''a_file'' =
     Some (Return
       [41, 9, 72, 154, 220, 176, 149, 170, 121, 90, 154, 126, 109, 146, 219, 115, 93, 10,
        12, 237, 7, 130, 196, 52, 150, 103, 91, 219, 123, 238, 195, 206]
       0x1A4 None) \<and>
   sha256 (bytes_of ''blob 8'' @ [0x00] @ bytes_of ''a file'' @ [0x0A]) =
       [220, 32, 222, 78, 190, 71, 153, 61, 206, 161, 252, 233, 31, 134, 209, 81, 90, 9,
        36, 18, 150, 197, 18, 31, 102, 199, 65, 193, 142, 248, 34, 125] \<and>
   hashSomething (Suc 0) joinPath exampleFS ''a_file'' \<noteq>
     Some (Return (sha256 (bytes_of ''blob 8'' @ [0x00] @ bytes_of ''a file'' @ [0x0A])) 0x1A4 None) \<and>
   hashSomething (Suc 0) joinPath exampleFS ''grown'' =
     Some (Return (sha256 (bytes_of ''blob 8'' @ [0x00] @ bytes_of ''a file'' @ [0x0A])) 0x1A4
        (Some (SizeMismatch 8 7 ''grown'')))"
proof -
  have m7: "preamble ''blob '' 7 @ bytes_of ''a file'' @ [0x0A] =
      [98, 108, 111, 98, 32, 55, 0, 97, 32, 102, 105, 108, 101, 10]"
    by (simp add: preamble_def Itoa_examples bytes_of_def)
  have m8: "bytes_of ''blob 8'' @ [0x00] @ bytes_of ''a file'' @ [0x0A] =
      [98, 108, 111, 98, 32, 56, 0, 97, 32, 102, 105, 108, 101, 10]"
    by (simp add: bytes_of_def)
  have p8: "preamble ''blob '' 8 @ bytes_of ''a file'' @ [0x0A] =
      [98, 108, 111, 98, 32, 56, 0, 97, 32, 102, 105, 108, 101, 10]"
    by (simp add: preamble_def Itoa_examples bytes_of_def)
  have a: "hashSomething (Suc 0) joinPath exampleFS ''a_file'' =
      Some (Return (sha256 (preamble ''blob '' 7 @ bytes_of ''a file'' @ [0x0A])) 0x1A4 None)"
    by (simp add: hashSomething_regular [OF example_Lstat(1)] example_modes example_Open
        BufferReader_sel length_bytes_of)
  have g: "hashSomething (Suc 0) joinPath exampleFS ''grown'' =
      Some (Return (sha256 (preamble ''blob '' 8 @ bytes_of ''a file'' @ [0x0A])) 0x1A4
        (Some (SizeMismatch 8 7 ''grown'')))"
    by (simp add: hashSomething_regular [OF example_Lstat(5)] example_modes example_Open
        BufferReader_sel length_bytes_of)
  show ?thesis
    unfolding a g m7 m8 p8 sha256_blob7 sha256_blob8
    by (simp add: example_Lstat example_Open)
qed

text \<open>C6 (as amended): the link target \<open>target string\<close> has 13 bytes, and when the
  metadata agrees with it the call returns, without error, the digest of \<open>blob 13\<close>, a
  zero byte and the target. Only the answers of \<open>Lstat\<close> and \<open>Readlink\<close> at the path of the
  link enter the result: two filesystems that agree there, and differ in whether the
  target exists or in anything else, give the same result.\<close>

theorem C6_blob_of_a_symlink:
  assumes "Lstat fs1 pth = Inr fi" and "Lstat fs2 pth = Inr fi"
    and "Mode fi AND ModeType = ModeSymlink"
    and "Readlink fs1 pth = Inr ''target string''" and "Readlink fs2 pth = Inr ''target string''"
    and "Size fi = int (length ''target string'')"
  shows "hashSomething (Suc depth) join fs1 pth =
           Some (Return (sha256 (bytes_of ''blob 13'' @ [0x00] @ bytes_of ''target string''))
                   (Mode fi) None)
         \<and> hashSomething (Suc depth) join fs2 pth = hashSomething (Suc depth) join fs1 pth
         \<and> length ''target string'' = 13"
proof -
  have size: "Size fi = 13"
    using assms(6) by simp
  have "preamble ''blob '' 13 = bytes_of ''blob 13'' @ [0x00]"
    by (simp add: preamble_def Itoa_examples bytes_of_def)
  then show ?thesis
    using assms(1-5) size by (simp add: hashSomething_symlink)
qed

theorem C6_blob_of_a_symlink_witness:
  "Lstat exampleFS ''a_symlink'' = Inr \<lparr>Mode = ModeSymlink OR 0x1FF, Size = 13\<rparr> \<and>
   Readlink exampleFS ''a_symlink'' = Inr ''target string'' \<and>
   Lstat exampleFS ''target string'' = Inl ''no such file or directory'' \<and>
   Lstat targetFS ''target string'' = Inr \<lparr>Mode = 0x1A4, Size = 0\<rparr> \<and>
   hashSomething (Suc 0) joinPath exampleFS ''a_symlink'' =
     Some (Return (sha256 (bytes_of ''blob 13'' @ [0x00] @ bytes_of ''target string''))
        (ModeSymlink OR 0x1FF) None) \<and>
   hashSomething (Suc 0) joinPath targetFS ''a_symlink'' =
     hashSomething (Suc 0) joinPath exampleFS ''a_symlink''"
  using C6_blob_of_a_symlink
          [of exampleFS "''a_symlink''" "\<lparr>Mode = ModeSymlink OR 0x1FF, Size = 13\<rparr>"
              targetFS 0 joinPath]
  by (simp add: example_Lstat example_Readlink example_modes target_facts)

text \<open>C6 as it is written fails: the link whose target has 13 bytes is not hashed under
  the length 14. Its digest, and the digest of \<open>blob 14\<close>, a zero byte and the same target,
  are computed here and differ. A link that claims 14 bytes and has this target gets the
  second digest together with the size-mismatch error.\<close>

theorem C6_blob_of_a_symlink_counterexample:
  "Lstat exampleFS ''a_symlink'' = Inr \<lparr>Mode = ModeSymlink OR 0x1FF, Size = 13\<rparr> \<and>
   Readlink exampleFS ''a_symlink'' = Inr ''target string'' \<and>
   hashSomething (Suc 0) joinPath exampleFS ''a_symlink'' =
     Some (Return
       [69, 160, 24, 72, 145, 46, 144, 14, 245, 130, 162, 62, 247, 99, 199, 125, 219, 45,
        149, 91, 234, 119, 86, 7, 47, 176, 86, 244, 53, 52, 252, 168]
       (ModeSymlink OR 0x1FF) None) \<and>
   sha256 (bytes_of ''blob 14'' @ [0x00] @ bytes_of ''target string'') =
       [57, 236, 59, 106, 173, 91, 20, 174, 211, 73, 83, 134, 114, 45, 64, 106, 104, 158,
        186, 199, 207, 217, 82, 224, 171, 118, 203, 85, 152, 118, 20, 45] \<and>
   hashSomething (Suc 0) joinPath exampleFS ''a_symlink'' \<noteq>
     Some (Return (sha256 (bytes_of ''blob 14'' @ [0x00] @ bytes_of ''target string''))
        (ModeSymlink OR 0x1FF) None) \<and>
   hashSomething (Suc 0) joinPath exampleFS ''stale'' =
     Some (Return (sha256 (bytes_of ''blob 14'' @ [0x00] @ bytes_of ''target string''))
        (ModeSymlink OR 0x1FF) (Some (SizeMismatch 14 13 ''stale'')))"
proof -
  have m13: "preamble ''blob '' 13 @ bytes_of ''target string'' =
      [98, 108, 111, 98, 32, 49, 51, 0, 116, 97, 114, 103, 101, 116, 32, 115, 116, 114, 105,
       110, 103]"
    by (simp add: preamble_def Itoa_examples bytes_of_def)
  have m14: "bytes_of ''blob 14'' @ [0x00] @ bytes_of ''target string'' =
      [98, 108, 111, 98, 32, 49, 52, 0, 116, 97, 114, 103, 101, 116, 32, 115, 116, 114, 105,
       110, 103]"
    by (simp add: bytes_of_def)
  have p14: "preamble ''blob '' 14 @ bytes_of ''target string'' =
      [98, 108, 111, 98, 32, 49, 52, 0, 116, 97, 114, 103, 101, 116, 32, 115, 116, 114, 105,
       110, 103]"
    by (simp add: preamble_def Itoa_examples bytes_of_def)
  have a: "hashSomething (Suc 0) joinPath exampleFS ''a_symlink'' =
      Some (Return (sha256 (preamble ''blob '' 13 @ bytes_of ''target string''))
        (ModeSymlink OR 0x1FF) None)"
    by (simp add: hashSomething_symlink [OF example_Lstat(2)] example_modes example_Readlink)
  have g: "hashSomething (Suc 0) joinPath exampleFS ''stale'' =
      Some (Return (sha256 (preamble ''blob '' 14 @ bytes_of ''target string''))
        (ModeSymlink OR 0x1FF) (Some (SizeMismatch 14 13 ''stale'')))"
    by (simp add: hashSomething_symlink [OF example_Lstat(6)] example_modes example_Readlink)
  show ?thesis
    unfolding a g m13 m14 p14 sha256_blob13 sha256_blob14
    by (simp add: example_Lstat example_Readlink)
qed

text \<open>C1: for a directory whose entries are all hashed without error, the bytes that are
  hashed are \<open>tree\<close>, a space, the decimal length of the body and a zero byte, followed by
  the body; the body is, for each entry in the order of the listing, the mode-string, one
  space, the name, one zero byte and the 32 bytes of the digest of the entry, with nothing
  after the digest. The mode-string is \<open>100755\<close> for a regular file with an execute bit,
  \<open>100644\<close> for another regular file, \<open>120000\<close> for a symbolic link and \<open>40000\<close> for a
  directory, and an entry that was hashed without error is one of these.\<close>

theorem C1_tree_body:
  assumes "Lstat fsys pth = Inr fi" and "Mode fi AND ModeType = ModeDir"
    and "ReadDir fsys pth = Inr dirEnts"
    and "map (\<lambda>name. hashSomething depth join fsys (join pth name)) dirEnts =
         map (\<lambda>child. Some (Return (fst child) (snd child) None)) children"
  shows "hashSomething (Suc depth) join fsys pth =
           Some (Return (sha256 (spec_tree (spec_body dirEnts children))) (Mode fi) None)
         \<and> (\<forall>child \<in> set children. length (fst child) = 32 \<and>
               (snd child AND ModeType = 0 \<or> snd child AND ModeType = ModeSymlink \<or>
                snd child AND ModeType = ModeDir))"
proof -
  have each: "length (fst child) = 32 \<and>
               (snd child AND ModeType = 0 \<or> snd child AND ModeType = ModeSymlink \<or>
                snd child AND ModeType = ModeDir)" if "child \<in> set children" for child
  proof -
    from that have "Some (Return (fst child) (snd child) None) \<in>
        set (map (\<lambda>child. Some (Return (fst child) (snd child) None)) children)"
      by force
    then have "Some (Return (fst child) (snd child) None) \<in>
        set (map (\<lambda>name. hashSomething depth join fsys (join pth name)) dirEnts)"
      by (simp only: assms(4))
    then obtain name
      where "hashSomething depth join fsys (join pth name) = Some (Return (fst child) (snd child) None)"
      by auto
    from hashSomething_succeeds [OF this] show ?thesis by auto
  qed
  then have modes: "\<forall>child \<in> set children. snd child AND ModeType = 0 \<or>
      snd child AND ModeType = ModeSymlink \<or> snd child AND ModeType = ModeDir"
    by blast
  have "dirLoop (hashSomething depth join fsys) join pth (Mode fi) dirEnts [] =
        Some (Inr ([] @ spec_body dirEnts children))"
    using assms(4) modes
    by (rule dirLoop_all_succeed [of "hashSomething depth join fsys" join pth dirEnts children])
  then have "hashSomething (Suc depth) join fsys pth =
      Some (Return (sha256 (preamble ''tree '' (int (length (spec_body dirEnts children)))
                      @ spec_body dirEnts children)) (Mode fi) None)"
    by (simp add: hashSomething_dir [OF assms(1,2)] assms(3))
  moreover have "preamble ''tree '' (int (length body)) @ body = spec_tree body" for body
    by (simp add: preamble_def spec_tree_def)
  ultimately show ?thesis using each by simp
qed

theorem C1_tree_body_witness:
  "Lstat exampleFS ''d'' = Inr \<lparr>Mode = ModeDir OR 0x1ED, Size = 4096\<rparr> \<and>
   ReadDir exampleFS ''d'' = Inr [''exe'', ''link'', ''name'', ''sub''] \<and>
   map (\<lambda>name. hashSomething (Suc 0) joinPath exampleFS (joinPath ''d'' name))
       [''exe'', ''link'', ''name'', ''sub''] =
     [Some (Return (sha256 (preamble ''blob '' 3 @ bytes_of ''abc'')) 0x1ED None),
      Some (Return (sha256 (preamble ''blob '' 13 @ bytes_of ''target string''))
              (ModeSymlink OR 0x1FF) None),
      Some (Return (sha256 (preamble ''blob '' 3 @ bytes_of ''abc'')) 0x1A4 None),
      Some (Return (sha256 (preamble ''tree '' 0)) (ModeDir OR 0x1ED) None)] \<and>
   hashSomething (Suc (Suc 0)) joinPath exampleFS ''d'' =
     Some (Return (sha256 (bytes_of ''tree 173'' @ [0x00]
                     @ bytes_of ''100755 exe'' @ [0x00]
                     @ sha256 (preamble ''blob '' 3 @ bytes_of ''abc'')
                     @ bytes_of ''120000 link'' @ [0x00]
                     @ sha256 (preamble ''blob '' 13 @ bytes_of ''target string'')
                     @ bytes_of ''100644 name'' @ [0x00]
                     @ sha256 (preamble ''blob '' 3 @ bytes_of ''abc'')
                     @ bytes_of ''40000 sub'' @ [0x00]
                     @ sha256 (preamble ''tree '' 0)))
        (ModeDir OR 0x1ED) None)"
proof -
  have body: "spec_body [''exe'', ''link'', ''name'', ''sub'']
      [(sha256 (preamble ''blob '' 3 @ bytes_of ''abc''), 0x1ED),
       (sha256 (preamble ''blob '' 13 @ bytes_of ''target string''), ModeSymlink OR 0x1FF),
       (sha256 (preamble ''blob '' 3 @ bytes_of ''abc''), 0x1A4),
       (sha256 (preamble ''tree '' 0), ModeDir OR 0x1ED)] =
      bytes_of ''100755 exe'' @ [0x00] @ sha256 (preamble ''blob '' 3 @ bytes_of ''abc'')
        @ bytes_of ''120000 link'' @ [0x00]
        @ sha256 (preamble ''blob '' 13 @ bytes_of ''target string'')
        @ bytes_of ''100644 name'' @ [0x00] @ sha256 (preamble ''blob '' 3 @ bytes_of ''abc'')
        @ bytes_of ''40000 sub'' @ [0x00] @ sha256 (preamble ''tree '' 0)"
    by (simp add: spec_body_def spec_entry_def spec_modeString_def spec_executable_def
        example_modes bytes_of_def mode_values)
  have tree: "spec_tree body = bytes_of ''tree 173'' @ [0x00] @ body" if "length body = 173" for body
    using that by (simp add: spec_tree_def Itoa_def digits.simps digit_def bytes_of_def)
  show ?thesis
    using C1_tree_body
            [of exampleFS "''d''" "\<lparr>Mode = ModeDir OR 0x1ED, Size = 4096\<rparr>"
                "[''exe'', ''link'', ''name'', ''sub'']" "Suc 0" joinPath
                "[(sha256 (preamble ''blob '' 3 @ bytes_of ''abc''), 0x1ED),
                  (sha256 (preamble ''blob '' 13 @ bytes_of ''target string''), ModeSymlink OR 0x1FF),
                  (sha256 (preamble ''blob '' 3 @ bytes_of ''abc''), 0x1A4),
                  (sha256 (preamble ''tree '' 0), ModeDir OR 0x1ED)]"]
    unfolding body
    by (simp add: example_Lstat example_ReadDir example_modes example_children joinPath_def
        tree length_sha256 length_bytes_of)
qed

text \<open>C10: on a size mismatch of a regular file or of a symbolic link the call returns the
  digest it computed together with the concurrent-I/O error. Every other call that returns
  an error returns the zero hash with it: when the error is not the size mismatch of this
  very path, and whenever the path is neither a regular file nor a symbolic link (for a
  directory this includes the failure of an entry).\<close>

theorem C10_digest_returned_with_the_size_mismatch:
  "(Lstat fsys pth = Inr fi \<and> Mode fi AND ModeType = 0 \<and> Open fsys pth = Inr f \<and>
    failure f = None \<and> int (length (content f)) \<noteq> Size fi
      \<longrightarrow> hashSomething (Suc depth) join fsys pth =
            Some (Return (sha256 (preamble ''blob '' (Size fi) @ content f)) (Mode fi)
                    (Some (SizeMismatch (Size fi) (int (length (content f))) pth))))
   \<and> (Lstat fsys pth = Inr fi \<and> Mode fi AND ModeType = ModeSymlink \<and>
       Readlink fsys pth = Inr target \<and> int (length target) \<noteq> Size fi
      \<longrightarrow> hashSomething (Suc depth) join fsys pth =
            Some (Return (sha256 (preamble ''blob '' (Size fi) @ bytes_of target)) (Mode fi)
                    (Some (SizeMismatch (Size fi) (int (length target)) pth))))
   \<and> (hashSomething d join fsys pth = Some (Return hash mode (Some err)) \<and>
       (\<forall>claimed observed. err \<noteq> SizeMismatch claimed observed pth)
      \<longrightarrow> hash = zeroHash)
   \<and> (hashSomething d join fsys pth = Some (Return hash mode (Some err)) \<and>
       Lstat fsys pth = Inr fi \<and> Mode fi AND ModeType \<noteq> 0 \<and> Mode fi AND ModeType \<noteq> ModeSymlink
      \<longrightarrow> hash = zeroHash)"
proof (intro conjI impI)
  assume "Lstat fsys pth = Inr fi \<and> Mode fi AND ModeType = 0 \<and> Open fsys pth = Inr f \<and>
    failure f = None \<and> int (length (content f)) \<noteq> Size fi"
  then show "hashSomething (Suc depth) join fsys pth =
            Some (Return (sha256 (preamble ''blob '' (Size fi) @ content f)) (Mode fi)
                    (Some (SizeMismatch (Size fi) (int (length (content f))) pth)))"
    by (simp add: hashSomething_regular)
next
  assume "Lstat fsys pth = Inr fi \<and> Mode fi AND ModeType = ModeSymlink \<and>
       Readlink fsys pth = Inr target \<and> int (length target) \<noteq> Size fi"
  then show "hashSomething (Suc depth) join fsys pth =
            Some (Return (sha256 (preamble ''blob '' (Size fi) @ bytes_of target)) (Mode fi)
                    (Some (SizeMismatch (Size fi) (int (length target)) pth)))"
    by (simp add: hashSomething_symlink)
next
  assume "hashSomething d join fsys pth = Some (Return hash mode (Some err)) \<and>
       (\<forall>claimed observed. err \<noteq> SizeMismatch claimed observed pth)"
  then show "hash = zeroHash"
    using hashSomething_error_hash [of d join fsys pth hash mode err] by auto
next
  assume "hashSomething d join fsys pth = Some (Return hash mode (Some err)) \<and>
       Lstat fsys pth = Inr fi \<and> Mode fi AND ModeType \<noteq> 0 \<and> Mode fi AND ModeType \<noteq> ModeSymlink"
  then show "hash = zeroHash"
    using hashSomething_error_hash [of d join fsys pth hash mode err] by auto
qed

theorem C10_digest_returned_with_the_size_mismatch_witness:
  "hashSomething (Suc 0) joinPath exampleFS ''grown'' =
     Some (Return
       [220, 32, 222, 78, 190, 71, 153, 61, 206, 161, 252, 233, 31, 134, 209, 81, 90, 9,
        36, 18, 150, 197, 18, 31, 102, 199, 65, 193, 142, 248, 34, 125]
       0x1A4 (Some (SizeMismatch 8 7 ''grown''))) \<and>
   [220, 32, 222, 78, 190, 71, 153, 61, 206, 161, 252, 233, 31, 134, 209, 81, 90, 9,
        36, 18, 150, 197, 18, 31, 102, 199, 65, 193, 142, 248, 34, 125] \<noteq> zeroHash \<and>
   hashSomething (Suc 0) joinPath exampleFS ''stale'' =
     Some (Return (sha256 (preamble ''blob '' 14 @ bytes_of ''target string'')) (ModeSymlink OR 0x1FF)
        (Some (SizeMismatch 14 13 ''stale''))) \<and>
   hashSomething (Suc 0) joinPath exampleFS ''gone'' =
     Some (Return zeroHash (ModeSymlink OR 0x1FF)
        (Some (ReadlinkFailure ''gone'' ''no such file or directory''))) \<and>
   Lstat exampleFS ''u/fifo'' = Inr \<lparr>Mode = ModeNamedPipe OR 0x1A4, Size = 0\<rparr> \<and>
   hashSomething (Suc 0) joinPath exampleFS ''u/fifo'' =
     Some (Return zeroHash (ModeNamedPipe OR 0x1A4)
        (Some (UnsupportedFileType ''pipe'' ''u/fifo'')))"
proof -
  have p8: "preamble ''blob '' 8 @ bytes_of ''a file'' @ [0x0A] =
      [98, 108, 111, 98, 32, 56, 0, 97, 32, 102, 105, 108, 101, 10]"
    by (simp add: preamble_def Itoa_examples bytes_of_def)
  have gone: "hashSomething (Suc 0) joinPath exampleFS ''gone'' =
     Some (Return zeroHash (ModeSymlink OR 0x1FF)
        (Some (ReadlinkFailure ''gone'' ''no such file or directory'')))"
    by (simp add: hashSomething_symlink [OF example_Lstat(7)] example_modes example_Readlink)
  have fifo: "hashSomething (Suc 0) joinPath exampleFS ''u/fifo'' =
     Some (Return zeroHash (ModeNamedPipe OR 0x1A4)
        (Some (UnsupportedFileType ''pipe'' ''u/fifo'')))"
    using hashSomething_unsupported(1) [OF example_Lstat(22), of 0 joinPath]
    by (simp add: example_modes)
  have nz: "[220, 32, 222, 78, 190, 71, 153, 61, 206, 161, 252, 233, 31, 134, 209, 81, 90, 9,
        36, 18, 150, 197, 18, 31, 102, 199, 65, 193, 142, 248, 34, 125] \<noteq> zeroHash"
    by (simp add: zeroHash_def replicate_numeral_pred)
  show ?thesis
    using C10_digest_returned_with_the_size_mismatch
            [of exampleFS "''grown''" "\<lparr>Mode = 0x1A4, Size = 8\<rparr>"
                "BufferReader (bytes_of ''a file'' @ [0x0A])" 0 joinPath]
          C10_digest_returned_with_the_size_mismatch
            [of exampleFS "''stale''" "\<lparr>Mode = ModeSymlink OR 0x1FF, Size = 14\<rparr>" _ 0 joinPath
                "''target string''"]
          C10_digest_returned_with_the_size_mismatch
            [of exampleFS "''gone''" _ _ _ joinPath _ "Suc 0" zeroHash "ModeSymlink OR 0x1FF"
                "ReadlinkFailure ''gone'' ''no such file or directory''"]
          C10_digest_returned_with_the_size_mismatch
            [of exampleFS "''u/fifo''" "\<lparr>Mode = ModeNamedPipe OR 0x1A4, Size = 0\<rparr>" _ _ joinPath _
                "Suc 0" zeroHash "ModeNamedPipe OR 0x1A4" "UnsupportedFileType ''pipe'' ''u/fifo''"]
    unfolding gone fifo
    by (simp add: example_Lstat example_Open example_Readlink example_modes BufferReader_sel
        length_bytes_of p8 sha256_blob8 nz)
qed

text \<open>C3 (as amended): when the walk from the path arrives at a path whose type bits are
  exactly those of a named pipe, a socket, a device, a character device or an irregular
  file (every entry listed before it, at each level, having been hashed without error),
  the whole call returns the zero hash and the unsupported-file-type error with the name
  of the type and that very path; the call on that path itself returns the zero hash and
  the same error, and nothing is asked about the entries listed after it.\<close>

theorem C3_unsupported_type:
  assumes "descends depth join fsys pth names"
    and "Lstat fsys (foldl join pth names) = Inr fi"
    and "unsupportedName (Mode fi) = Some typ"
  shows "(\<exists>top. Lstat fsys pth = Inr top \<and>
            hashSomething (Suc depth) join fsys pth =
              Some (Return zeroHash (Mode top)
                      (Some (UnsupportedFileType typ (foldl join pth names)))))
         \<and> code (UnsupportedFileType typ (foldl join pth names)) = ErrUnsupportedFileType
         \<and> hashSomething (Suc depth) join fsys (foldl join pth names) =
              Some (Return zeroHash (Mode fi)
                      (Some (UnsupportedFileType typ (foldl join pth names))))"
proof -
  have leaf: "hashSomething (Suc d) join fsys (foldl join pth names) =
      Some (Return zeroHash (Mode fi) (Some (UnsupportedFileType typ (foldl join pth names))))"
    for d
    using assms(3) hashSomething_unsupported [OF assms(2), of d join]
    by (auto simp: unsupportedName_def Let_def split: if_splits)
  have "\<exists>top. Lstat fsys pth = Inr top \<and>
            hashSomething (Suc depth) join fsys pth =
              Some (Return zeroHash (Mode top)
                      (Some (UnsupportedFileType typ (foldl join pth names))))"
    using assms(1,2) leaf
  proof (induction names arbitrary: depth pth)
    case Nil
    from Nil.prems(2) Nil.prems(3) [of depth] show ?case
      by simp
  next
    case (Cons name names)
    from Cons.prems(1) obtain d where depth: "depth = Suc d"
      by (cases depth) auto
    from Cons.prems(1) obtain top dirEnts
      where top: "Lstat fsys pth = Inr top" and dir: "Mode top AND ModeType = ModeDir"
        and ents: "ReadDir fsys pth = Inr dirEnts" and name: "name \<in> set dirEnts"
        and before: "\<forall>n \<in> set (takeWhile (\<lambda>n. n \<noteq> name) dirEnts).
                        succeeded (hashSomething (Suc d) join fsys (join pth n))"
        and down: "descends d join fsys (join pth name) names"
      unfolding depth by (auto split: sum.splits)
    have there: "Lstat fsys (foldl join (join pth name) names) = Inr fi"
      using Cons.prems(2) by simp
    have "\<And>d. hashSomething (Suc d) join fsys (foldl join (join pth name) names) =
        Some (Return zeroHash (Mode fi)
               (Some (UnsupportedFileType typ (foldl join (join pth name) names))))"
      using Cons.prems(3) by simp
    from Cons.IH [OF down there this] obtain sub
      where "Lstat fsys (join pth name) = Inr sub"
        and sub: "hashSomething (Suc d) join fsys (join pth name) =
          Some (Return zeroHash (Mode sub)
                  (Some (UnsupportedFileType typ (foldl join pth (name # names)))))"
      by auto
    have "dirLoop (hashSomething (Suc d) join fsys) join pth (Mode top)
            (takeWhile (\<lambda>n. n \<noteq> name) dirEnts @ name # tl (dropWhile (\<lambda>n. n \<noteq> name) dirEnts)) [] =
          Some (Inl (Return zeroHash (Mode top)
                  (Some (UnsupportedFileType typ (foldl join pth (name # names))))))"
      by (rule dirLoop_stops [OF before sub])
    then have "dirLoop (hashSomething (Suc d) join fsys) join pth (Mode top) dirEnts [] =
          Some (Inl (Return zeroHash (Mode top)
                  (Some (UnsupportedFileType typ (foldl join pth (name # names))))))"
      using split_at_name [OF name] by simp
    then show ?case
      unfolding depth by (simp add: hashSomething_dir [OF top dir] ents top)
  qed
  then show ?thesis using leaf by simp
qed

theorem C3_unsupported_type_witness:
  "descends (Suc (Suc 0)) joinPath exampleFS ''t'' [''n'', ''fifo''] \<and>
   ReadDir exampleFS ''t'' = Inr [''a'', ''n'', ''z''] \<and>
   ReadDir exampleFS ''t/n'' = Inr [''fifo'', ''sock''] \<and>
   Lstat exampleFS ''t/n/fifo'' = Inr \<lparr>Mode = ModeNamedPipe OR 0x1A4, Size = 0\<rparr> \<and>
   unsupportedName (ModeNamedPipe OR 0x1A4) = Some ''pipe'' \<and>
   hashSomething (Suc (Suc (Suc 0))) joinPath exampleFS ''t'' =
     Some (Return zeroHash (ModeDir OR 0x1ED) (Some (UnsupportedFileType ''pipe'' ''t/n/fifo'')))"
proof -
  have d: "descends (Suc (Suc 0)) joinPath exampleFS ''t'' [''n'', ''fifo'']"
    by (simp add: example_Lstat example_ReadDir example_modes example_children joinPath_def
        succeeded_def)
  have u: "unsupportedName (ModeNamedPipe OR 0x1A4) = Some ''pipe''"
    by (simp add: unsupportedName_def mode_values)
  show ?thesis
    using C3_unsupported_type
            [of "Suc (Suc 0)" joinPath exampleFS "''t''" "[''n'', ''fifo'']"
                "\<lparr>Mode = ModeNamedPipe OR 0x1A4, Size = 0\<rparr>" "''pipe''"]
          d u
    by (simp add: example_Lstat example_ReadDir joinPath_def)
qed

text \<open>C3 as it is written fails: a tree can hold a named pipe and fail with another kind
  of error, because the first failure of the walk is the one returned. Here the directory
  lists an entry whose \<open>Lstat\<close> fails before it lists the pipe, and the call returns the
  I/O error of that entry.\<close>

theorem C3_unsupported_type_counterexample:
  "ReadDir exampleFS ''u'' = Inr [''broken'', ''fifo''] \<and>
   Lstat exampleFS ''u/fifo'' = Inr \<lparr>Mode = ModeNamedPipe OR 0x1A4, Size = 0\<rparr> \<and>
   hashSomething (Suc 0) joinPath exampleFS ''u/fifo'' =
     Some (Return zeroHash (ModeNamedPipe OR 0x1A4) (Some (UnsupportedFileType ''pipe'' ''u/fifo''))) \<and>
   hashSomething (Suc (Suc 0)) joinPath exampleFS ''u'' =
     Some (Return zeroHash (ModeDir OR 0x1ED) (Some (IOFailure ''no such file or directory''))) \<and>
   code (IOFailure ''no such file or directory'') \<noteq> ErrUnsupportedFileType"
proof -
  have "hashSomething (Suc 0) joinPath exampleFS ''u/broken'' =
      Some (Return zeroHash 0 (Some (IOFailure ''no such file or directory'')))"
    by (simp add: hashSomething_lstat_fails example_Lstat)
  then have "hashSomething (Suc (Suc 0)) joinPath exampleFS ''u'' =
     Some (Return zeroHash (ModeDir OR 0x1ED) (Some (IOFailure ''no such file or directory'')))"
    by (simp add: hashSomething_dir [OF example_Lstat(20)] example_modes example_ReadDir
        joinPath_def)
  moreover have "hashSomething (Suc 0) joinPath exampleFS ''u/fifo'' =
     Some (Return zeroHash (ModeNamedPipe OR 0x1A4) (Some (UnsupportedFileType ''pipe'' ''u/fifo'')))"
    using hashSomething_unsupported(1) [OF example_Lstat(22), of 0 joinPath]
    by (simp add: example_modes)
  ultimately show ?thesis
    using error_codes_differ by (simp add: example_Lstat example_ReadDir)
qed

text \<open>C4: two calls on a directory return the same result, and so the same digest, when
  the two enumerations of every directory have the same entries in whatever order, and the
  filesystem is otherwise the same: the entries are sorted by name before the byte
  sequence of the parent is composed, so both calls compose it from the same sorted
  listing.\<close>

theorem C4_enumeration_order:
  assumes "Lstat fs1 = Lstat fs2" and "Open fs1 = Open fs2" and "Readlink fs1 = Readlink fs2"
    and "\<forall>p. sameEntries (Listing fs1 p) (Listing fs2 p)"
  shows "hashSomething depth join fs1 pth = hashSomething depth join fs2 pth
         \<and> (\<forall>names. Listing fs1 pth = Inr names
               \<longrightarrow> ReadDir fs1 pth = Inr (sort names) \<and> ReadDir fs2 pth = Inr (sort names))"
proof -
  have same: "ReadDir fs1 p = ReadDir fs2 p" for p
    using assms(4) by (simp add: ReadDir_same_entries)
  have "hashSomething depth join fs1 pth = hashSomething depth join fs2 pth"
    using assms(1-3) same by (rule hashSomething_same_calls)
  moreover have "ReadDir fs1 pth = Inr (sort names) \<and> ReadDir fs2 pth = Inr (sort names)"
    if "Listing fs1 pth = Inr names" for names
    using ReadDir_Listing [OF that] same [of pth] by simp
  ultimately show ?thesis by blast
qed

theorem C4_enumeration_order_witness:
  "Listing exampleFS ''p'' = Inr [''name'', ''sub''] \<and>
   Listing reorderedFS ''p'' = Inr [''sub'', ''name''] \<and>
   ReadDir reorderedFS ''p'' = Inr [''name'', ''sub''] \<and>
   hashSomething (Suc (Suc 0)) joinPath exampleFS ''p'' =
     Some (Return
       [42, 116, 9, 75, 148, 251, 24, 104, 96, 186, 184, 106, 226, 177, 241, 111, 237, 182,
        62, 21, 91, 38, 217, 226, 31, 102, 76, 162, 10, 158, 246, 36]
       (ModeDir OR 0x1ED) None) \<and>
   hashSomething (Suc (Suc 0)) joinPath reorderedFS ''p'' =
     Some (Return
       [42, 116, 9, 75, 148, 251, 24, 104, 96, 186, 184, 106, 226, 177, 241, 111, 237, 182,
        62, 21, 91, 38, 217, 226, 31, 102, 76, 162, 10, 158, 246, 36]
       (ModeDir OR 0x1ED) None)"
proof -
  have blob: "preamble ''blob '' 3 @ bytes_of ''abc'' = [98, 108, 111, 98, 32, 51, 0, 97, 98, 99]"
    by (simp add: preamble_def Itoa_examples bytes_of_def)
  have tree: "preamble ''tree '' 0 = [116, 114, 101, 101, 32, 48, 0]"
    by (simp add: preamble_def Itoa_examples bytes_of_def)
  have modes: "entryMode 0x1A4 = Some ''100644 ''" "entryMode (ModeDir OR 0x1ED) = Some ''40000 ''"
    by (simp_all add: entryMode_def Let_def mode_values)
  have name1: "hashSomething (Suc 0) joinPath exampleFS ''p/name'' =
      Some (Return
        [193, 207, 110, 70, 80, 119, 147, 14, 136, 220, 81, 54, 100, 29, 64, 47, 114, 162,
         41, 221, 217, 150, 246, 39, 214, 14, 150, 57, 234, 186, 53, 166]
        0x1A4 None)"
    and sub1: "hashSomething (Suc 0) joinPath exampleFS ''p/sub'' =
      Some (Return
        [110, 241, 155, 65, 34, 92, 83, 105, 241, 193, 4, 212, 93, 141, 133, 239, 169, 176,
         87, 181, 59, 20, 180, 185, 185, 57, 221, 116, 222, 204, 83, 33]
        (ModeDir OR 0x1ED) None)"
    by (simp_all only: example_children blob tree sha256_blob3 sha256_tree0)
  have loop1: "dirLoop (hashSomething (Suc 0) joinPath exampleFS) joinPath ''p'' (ModeDir OR 0x1ED)
        [''name'', ''sub''] [] =
      Some (Inr [49, 48, 48, 54, 52, 52, 32, 110, 97, 109, 101, 0, 193, 207, 110, 70, 80,
                 119, 147, 14, 136, 220, 81, 54, 100, 29, 64, 47, 114, 162, 41, 221, 217,
                 150, 246, 39, 214, 14, 150, 57, 234, 186, 53, 166, 52, 48, 48, 48, 48, 32,
                 115, 117, 98, 0, 110, 241, 155, 65, 34, 92, 83, 105, 241, 193, 4, 212, 93,
                 141, 133, 239, 169, 176, 87, 181, 59, 20, 180, 185, 185, 57, 221, 116,
                 222, 204, 83, 33])"
    by (simp add: joinPath_def name1 sub1 modes bytes_of_def)
  have pre: "preamble ''tree '' 86 = [116, 114, 101, 101, 32, 56, 54, 0]"
    by (simp add: preamble_def Itoa_examples bytes_of_def)
  have r1: "hashSomething (Suc (Suc 0)) joinPath exampleFS ''p'' =
     Some (Return
       [42, 116, 9, 75, 148, 251, 24, 104, 96, 186, 184, 106, 226, 177, 241, 111, 237, 182,
        62, 21, 91, 38, 217, 226, 31, 102, 76, 162, 10, 158, 246, 36]
       (ModeDir OR 0x1ED) None)"
    by (simp add: hashSomething_dir [OF example_Lstat(13)] example_modes example_ReadDir loop1 pre
        sha256_tree_name_sub del: dirLoop.simps)
  show ?thesis
    using C4_enumeration_order [of exampleFS reorderedFS "Suc (Suc 0)" joinPath "''p''"]
    unfolding r1
    by (simp add: reordered_same example_same_entries example_Listing)
qed

end
